theory Spec2Isabelle
  imports Complex_Main "HOL-Library.Multiset"
begin

section \<open>Strings and the similarity scorer (src/app/api/analyze/route.js)\<close>

text \<open>
  A JavaScript string is a sequence of 16-bit code units. The similarity scorer reads its
  strings through \<^verbatim>\<open>toLowerCase\<close>, \<^verbatim>\<open>length\<close>, \<^verbatim>\<open>substring\<close> and equality only, so it
  is embedded for lists over any type \<open>'c\<close> of code units. The rest of the pipeline
  uses the strings of HOL, whose characters are the code units below 256.

  \<^verbatim>\<open>toLowerCase\<close> is the lower-casing of the engine, a function on strings that follows the
  Unicode tables and may change the length of a string (the one code unit \<open>U+0130\<close>
  becomes two). The embedding does not fix it: every function below that lower-cases
  takes it as its first argument, and the theorems hold for every such function.
\<close>

type_synonym lower = "string \<Rightarrow> string"

text \<open>\<^verbatim>\<open>s.substring(i, j)\<close> for \<open>i \<le> j\<close>.\<close>

definition substring :: "'c list \<Rightarrow> nat \<Rightarrow> nat \<Rightarrow> 'c list" where
  "substring s i j = take (j - i) (drop i s)"

text \<open>
  The bigrams visited by \<^verbatim>\<open>for (let i = 0; i < s.length - 1; i++) s.substring(i, i + 2)\<close>,
  in the order of the loop.
\<close>

definition bigrams_of :: "'c list \<Rightarrow> 'c list list" where
  "bigrams_of s = map (\<lambda>i. substring s i (i + 2)) [0..<length s - 1]"

text \<open>\<^verbatim>\<open>bigrams.get(bigram) || 0\<close> on the \<^verbatim>\<open>Map\<close> of bigram counts.\<close>

definition get_count :: "('c list \<rightharpoonup> nat) \<Rightarrow> 'c list \<Rightarrow> nat" where
  "get_count bigrams bigram = (case bigrams bigram of None \<Rightarrow> 0 | Some c \<Rightarrow> c)"

text \<open>The first loop of \<^verbatim>\<open>similarity\<close>: count every bigram of the first string.\<close>

fun count_bigrams ::
  "('c list \<rightharpoonup> nat) \<Rightarrow> 'c list list \<Rightarrow> ('c list \<rightharpoonup> nat)" where
  "count_bigrams bigrams [] = bigrams"
| "count_bigrams bigrams (bigram # rest) =
     count_bigrams (bigrams(bigram \<mapsto> get_count bigrams bigram + 1)) rest"

text \<open>
  The second loop: scan the bigrams of the second string; a bigram whose count is
  positive is consumed from the map and counted as an intersection.
\<close>

fun consume_bigrams :: "('c list \<rightharpoonup> nat) \<Rightarrow> nat \<Rightarrow> 'c list list \<Rightarrow> nat" where
  "consume_bigrams bigrams intersections [] = intersections"
| "consume_bigrams bigrams intersections (bigram # rest) =
     (let count = get_count bigrams bigram
      in if count > 0
         then consume_bigrams (bigrams(bigram \<mapsto> count - 1)) (intersections + 1) rest
         else consume_bigrams bigrams intersections rest)"

text \<open>
  \<^verbatim>\<open>similarity(a, b)\<close> on two strings. The result is the quotient of two integers
  below \<open>2^32\<close>; it is kept as an exact rational. The double the source computes is the
  nearest double to that rational, and so are the thresholds it is compared with, so
  every comparison of the source agrees with the comparison of the rationals.
\<close>

definition similarity :: "('c list \<Rightarrow> 'c list) \<Rightarrow> 'c list \<Rightarrow> 'c list \<Rightarrow> rat" where
  "similarity toLowerCase a b =
     (let aLower = toLowerCase a; bLower = toLowerCase b
      in if aLower = bLower then 1
         else if length aLower < 2 \<or> length bLower < 2 then 0
         else
           (let bigrams = count_bigrams Map.empty (bigrams_of aLower);
                intersections = consume_bigrams bigrams 0 (bigrams_of bLower)
            in (2 * of_nat intersections) / of_nat (length aLower + length bLower - 2)))"

section \<open>Numbers, errors and the sort of the engine\<close>

text \<open>
  The numbers of the source that the embedding needs outside of prices: the integers
  (each below is an integer that a double holds exactly), the two infinities and NaN.
  The difference of two integers is kept exact: the source rounds it to a double, which
  keeps its sign, and a comparator's result is read for its sign only.
\<close>

datatype number = Fin int | PosInf | NegInf | NaN

fun number_minus :: "number \<Rightarrow> number \<Rightarrow> number" where
  "number_minus NaN y = NaN"
| "number_minus x NaN = NaN"
| "number_minus (Fin a) (Fin b) = Fin (a - b)"
| "number_minus (Fin a) PosInf = NegInf"
| "number_minus (Fin a) NegInf = PosInf"
| "number_minus PosInf PosInf = NaN"
| "number_minus PosInf y = PosInf"
| "number_minus NegInf NegInf = NaN"
| "number_minus NegInf y = NegInf"

definition negative :: "number \<Rightarrow> bool" where
  "negative v = (case v of Fin i \<Rightarrow> i < 0 | NegInf \<Rightarrow> True | PosInf \<Rightarrow> False | NaN \<Rightarrow> False)"

text \<open>The truth value of a number: 0 and NaN are false.\<close>

definition truthy_value :: "number \<Rightarrow> bool" where
  "truthy_value v = (v \<noteq> Fin 0 \<and> v \<noteq> NaN)"

text \<open>An exception object, with its \<^verbatim>\<open>message\<close>.\<close>

datatype js_error = TypeError string | Error string

fun message :: "js_error \<Rightarrow> string" where
  "message (TypeError m) = m"
| "message (Error m) = m"

text \<open>
  \<^verbatim>\<open>Array.prototype.sort\<close> with a comparator, as V8 (the engine of Node.js) runs it on an
  array of fewer than 64 elements. The sort calls the comparator through \<open>compare\<close>, where
  NaN counts as 0. It finds the run at the start of the array (a run where each element
  compares below its predecessor is reversed) and inserts every further element by
  binary search, behind the elements it does not compare below. For 64 elements and more
  V8 sorts pieces of the array in this way and merges them; for a consistent comparator
  the result is the same stable sort.
\<close>

definition compare :: "('a \<Rightarrow> 'a \<Rightarrow> number) \<Rightarrow> 'a \<Rightarrow> 'a \<Rightarrow> number" where
  "compare comparefn x y = (case comparefn x y of NaN \<Rightarrow> Fin 0 | v \<Rightarrow> v)"

text \<open>
  The loop of \<^verbatim>\<open>CountAndMakeRun\<close>: how many of the elements after \<open>previousElement\<close>
  continue the run.
\<close>

fun run_rest :: "('a \<Rightarrow> 'a \<Rightarrow> number) \<Rightarrow> bool \<Rightarrow> 'a \<Rightarrow> 'a list \<Rightarrow> nat" where
  "run_rest comparefn isDescending previousElement [] = 0"
| "run_rest comparefn isDescending previousElement (currentElement # rest) =
     (let order = compare comparefn currentElement previousElement
      in if isDescending then
           (if \<not> negative order then 0
            else Suc (run_rest comparefn isDescending currentElement rest))
         else
           (if negative order then 0
            else Suc (run_rest comparefn isDescending currentElement rest)))"

text \<open>
  The binary search of \<^verbatim>\<open>BinaryInsertionSort\<close> for the place of \<open>pivot\<close> among the sorted
  elements \<open>workArray\<close>, between \<open>left\<close> and \<open>right\<close>.
\<close>

function insertion_point ::
  "('a \<Rightarrow> 'a \<Rightarrow> number) \<Rightarrow> 'a \<Rightarrow> 'a list \<Rightarrow> nat \<Rightarrow> nat \<Rightarrow> nat" where
  "insertion_point comparefn pivot workArray left right =
     (if left < right then
        (let mid = left + (right - left) div 2;
             order = compare comparefn pivot (workArray ! mid)
         in if negative order then insertion_point comparefn pivot workArray left mid
            else insertion_point comparefn pivot workArray (mid + 1) right)
      else left)"
  by pat_completeness auto
termination
  by (relation "measure (\<lambda>(comparefn, pivot, workArray, left, right). right - left)") auto

declare insertion_point.simps [simp del]

fun binary_insertion :: "('a \<Rightarrow> 'a \<Rightarrow> number) \<Rightarrow> 'a list \<Rightarrow> 'a list \<Rightarrow> 'a list" where
  "binary_insertion comparefn workArray [] = workArray"
| "binary_insertion comparefn workArray (pivot # rest) =
     (let left = insertion_point comparefn pivot workArray 0 (length workArray)
      in binary_insertion comparefn (take left workArray @ pivot # drop left workArray) rest)"

definition js_sort :: "('a \<Rightarrow> 'a \<Rightarrow> number) \<Rightarrow> 'a list \<Rightarrow> 'a list" where
  "js_sort comparefn xs =
     (case xs of
        elementHigh # elementLow # rest \<Rightarrow>
          (let order = compare comparefn elementLow elementHigh;
               isDescending = negative order;
               runLength = 2 + run_rest comparefn isDescending elementLow rest;
               run = take runLength xs
           in binary_insertion comparefn (if isDescending then rev run else run)
                (drop runLength xs))
      | _ \<Rightarrow> xs)"

section \<open>Detected items and the deduplicator (src/app/api/analyze/route.js)\<close>

text \<open>
  A detected item is an object parsed from the vision model's JSON, so any field may be
  missing or of another type than asked for. A text field is a string or is missing
  (\<^verbatim>\<open>undefined\<close>), which is \<open>None\<close>. The record holds the fields the pipeline reads; the
  others (brand, model, era, condition, photo index and URL) are copied along untouched
  by every step and are left out. The \<^verbatim>\<open>ebay\<close> field is the price comp summary that the
  orchestrator attaches: the statistics of a lookup and its first listings, each with its
  title and sold price (the other fields of a listing are display data and are left out).

  The field \<^verbatim>\<open>notable_features\<close> is read by iteration only. It is \<open>Absent\<close> when it is
  missing or another false value, \<open>Iterable fs\<close> when it can be iterated (an array, or a
  string, whose iteration yields its characters), with \<open>fs\<close> the strings the iteration
  yields, and \<open>NotIterable\<close> when it is a true value that cannot be iterated (a number, an
  object), with the messages of the TypeErrors that \<^verbatim>\<open>new Set\<close> and \<^verbatim>\<open>for ... of\<close> raise on
  it.
\<close>

record listing =
  title :: string
  soldPrice :: rat

record comp =
  comp_count :: nat
  comp_totalResults :: nat
  comp_median :: int
  comp_mean :: int
  comp_low :: rat
  comp_high :: rat
  comp_recentSales :: "listing list"

datatype features = Absent | Iterable "string list" | NotIterable string string

record item =
  name :: "string option"
  category :: "string option"
  confidence :: "string option"
  notable_features :: features
  search_query :: "string option"
  estimated_value_hint :: "string option"
  ebay :: "comp option"

text \<open>
  \<^verbatim>\<open>similarity(a, b)\<close> as the deduplicator calls it, on fields that may be missing:
  \<^verbatim>\<open>a.toLowerCase()\<close> is evaluated first, then \<^verbatim>\<open>b.toLowerCase()\<close>, and either raises a
  TypeError on \<^verbatim>\<open>undefined\<close>.
\<close>

definition undefined_toLowerCase :: js_error where
  "undefined_toLowerCase =
     TypeError ''Cannot read properties of undefined (reading 'toLowerCase')''"

definition similarity_js :: "lower \<Rightarrow> string option \<Rightarrow> string option \<Rightarrow> js_error + rat" where
  "similarity_js toLowerCase a b =
     (case a of
        None \<Rightarrow> Inl undefined_toLowerCase
      | Some a' \<Rightarrow>
          (case b of
             None \<Rightarrow> Inl undefined_toLowerCase
           | Some b' \<Rightarrow> Inr (similarity toLowerCase a' b')))"

text \<open>
  The operand \<^verbatim>\<open>confidenceRank[c] || 0\<close> of the comparator, with
  \<^verbatim>\<open>{ high: 3, medium: 2, low: 1 }\<close>, as a number. The object inherits the properties of
  \<^verbatim>\<open>Object.prototype\<close>: for their names the lookup finds a function (an object for
  \<^verbatim>\<open>__proto__\<close>), which is true, so that the 0 is not taken, and which the subtraction
  turns into NaN.
\<close>

definition inherited_property :: "string \<Rightarrow> bool" where
  "inherited_property k =
     (k \<in> set [''constructor'', ''__defineGetter__'', ''__defineSetter__'',
                ''hasOwnProperty'', ''__lookupGetter__'', ''__lookupSetter__'',
                ''isPrototypeOf'', ''propertyIsEnumerable'', ''toString'', ''valueOf'',
                ''__proto__'', ''toLocaleString''])"

definition confidenceRank :: "string option \<Rightarrow> number" where
  "confidenceRank c =
     (if c = Some ''high'' then Fin 3
      else if c = Some ''medium'' then Fin 2
      else if c = Some ''low'' then Fin 1
      else (case c of
              None \<Rightarrow> Fin 0
            | Some k \<Rightarrow> if inherited_property k then NaN else Fin 0))"

text \<open>
  A JavaScript \<^verbatim>\<open>Set\<close> of strings, as the list of its elements in insertion order:
  \<^verbatim>\<open>add\<close> appends an element that is not there yet, \<^verbatim>\<open>new Set(xs)\<close> adds the elements
  of \<open>xs\<close> in turn.
\<close>

definition set_add :: "string list \<Rightarrow> string \<Rightarrow> string list" where
  "set_add s f = (if f \<in> set s then s else s @ [f])"

definition new_Set :: "string list \<Rightarrow> string list" where
  "new_Set xs = foldl set_add [] xs"

text \<open>
  The merge of lines 109 to 113: \<^verbatim>\<open>new Set(existing.notable_features || [])\<close>, the
  loop \<^verbatim>\<open>for (const f of item.notable_features || [])\<close> adding to the set, and the
  result stored in \<open>existing\<close> as an array. Either iteration raises on a value that
  cannot be iterated.
\<close>

definition merge_features :: "item \<Rightarrow> item \<Rightarrow> js_error + item" where
  "merge_features existing it =
     (case notable_features existing of
        NotIterable set_message loop_message \<Rightarrow> Inl (TypeError set_message)
      | f \<Rightarrow>
          (let existingFeatures = new_Set (case f of Iterable fs \<Rightarrow> fs | _ \<Rightarrow> [])
           in case notable_features it of
                NotIterable set_message loop_message \<Rightarrow> Inl (TypeError loop_message)
              | g \<Rightarrow>
                  Inr (existing\<lparr>notable_features :=
                         Iterable (foldl set_add existingFeatures
                                     (case g of Iterable fs \<Rightarrow> fs | _ \<Rightarrow> []))\<rparr>)))"

text \<open>
  The inner loop \<^verbatim>\<open>for (const existing of kept)\<close> for one candidate \<open>item\<close>. The result
  is \<open>Inl\<close> when a call of \<^verbatim>\<open>similarity\<close> or the merge raises, \<open>Inr None\<close> when the loop
  ends with \<^verbatim>\<open>isDuplicate\<close> false, and \<open>Inr (Some kept')\<close> when a duplicate was found,
  \<open>kept'\<close> being the kept list after the merge.
\<close>

fun scan_kept ::
  "lower \<Rightarrow> rat \<Rightarrow> rat \<Rightarrow> item \<Rightarrow> item list \<Rightarrow> js_error + item list option" where
  "scan_kept toLowerCase nameThreshold queryThreshold item [] = Inr None"
| "scan_kept toLowerCase nameThreshold queryThreshold item (existing # kept) =
     (if category item \<noteq> category existing
      then (case scan_kept toLowerCase nameThreshold queryThreshold item kept of
              Inl e \<Rightarrow> Inl e
            | Inr None \<Rightarrow> Inr None
            | Inr (Some kept') \<Rightarrow> Inr (Some (existing # kept')))
      else
        (case similarity_js toLowerCase (name item) (name existing) of
           Inl e \<Rightarrow> Inl e
         | Inr nameSim \<Rightarrow>
             (case similarity_js toLowerCase (search_query item) (search_query existing) of
                Inl e \<Rightarrow> Inl e
              | Inr querySim \<Rightarrow>
                  if nameSim \<ge> nameThreshold \<or> querySim \<ge> queryThreshold
                  then (case merge_features existing item of
                          Inl e \<Rightarrow> Inl e
                        | Inr merged \<Rightarrow> Inr (Some (merged # kept)))
                  else (case scan_kept toLowerCase nameThreshold queryThreshold item kept of
                          Inl e \<Rightarrow> Inl e
                        | Inr None \<Rightarrow> Inr None
                        | Inr (Some kept') \<Rightarrow> Inr (Some (existing # kept'))))))"

text \<open>The outer loop \<^verbatim>\<open>for (const item of sorted)\<close>, with \<open>kept\<close> as its state.\<close>

fun dedup_loop ::
  "lower \<Rightarrow> rat \<Rightarrow> rat \<Rightarrow> item list \<Rightarrow> item list \<Rightarrow> js_error + item list" where
  "dedup_loop toLowerCase nameThreshold queryThreshold kept [] = Inr kept"
| "dedup_loop toLowerCase nameThreshold queryThreshold kept (item # rest) =
     (case scan_kept toLowerCase nameThreshold queryThreshold item kept of
        Inl e \<Rightarrow> Inl e
      | Inr None \<Rightarrow> dedup_loop toLowerCase nameThreshold queryThreshold (kept @ [item]) rest
      | Inr (Some kept') \<Rightarrow> dedup_loop toLowerCase nameThreshold queryThreshold kept' rest)"

text \<open>The comparator \<^verbatim>\<open>(a, b) => (confidenceRank[b.confidence] || 0) - (...)\<close>.\<close>

definition confidence_cmp :: "item \<Rightarrow> item \<Rightarrow> number" where
  "confidence_cmp a b =
     number_minus (confidenceRank (confidence b)) (confidenceRank (confidence a))"

definition deduplicateItems ::
  "lower \<Rightarrow> item list \<Rightarrow> rat \<Rightarrow> rat \<Rightarrow> js_error + item list" where
  "deduplicateItems toLowerCase items nameThreshold queryThreshold =
     (let sorted = js_sort confidence_cmp items
      in dedup_loop toLowerCase nameThreshold queryThreshold [] sorted)"

text \<open>The call with the default thresholds \<^verbatim>\<open>0.75\<close> and \<^verbatim>\<open>0.70\<close>.\<close>

definition deduplicateItems_default :: "lower \<Rightarrow> item list \<Rightarrow> js_error + item list" where
  "deduplicateItems_default toLowerCase items =
     deduplicateItems toLowerCase items (3 / 4) (7 / 10)"

subsection \<open>Dollar amounts in a value hint\<close>

text \<open>
  A dollar amount is read by \<^verbatim>\<open>parseInt\<close> from a run of decimal digits. The result is
  the double nearest to the integer the digits denote (a tie goes to the even
  significand), and Infinity from \<open>2^1024\<close> on. An amount is such a double: a
  non-negative integer, or Infinity. \<open>round53\<close> rounds a non-negative integer to 53
  significant bits in this way; up to \<open>2^53\<close> it changes nothing.
\<close>

datatype amount = Amount int | Infinite

definition is_digit :: "char \<Rightarrow> bool" where
  "is_digit c = (48 \<le> (of_char c :: nat) \<and> (of_char c :: nat) \<le> 57)"

definition decimal_value :: "string \<Rightarrow> int" where
  "decimal_value ds = foldl (\<lambda>n c. 10 * n + ((of_char c :: int) - 48)) 0 ds"

function bit_length :: "int \<Rightarrow> nat" where
  "bit_length n = (if n \<le> 0 then 0 else Suc (bit_length (n div 2)))"
  by pat_completeness auto
termination
  by (relation "measure nat") auto

declare bit_length.simps [simp del]

definition round53 :: "int \<Rightarrow> int" where
  "round53 n =
     (let k = bit_length n - 53; q = n div 2 ^ k; r = n mod 2 ^ k
      in if 2 * r > 2 ^ k \<or> (2 * r = 2 ^ k \<and> odd q) then (q + 1) * 2 ^ k else q * 2 ^ k)"

definition double_of_int :: "int \<Rightarrow> amount" where
  "double_of_int n = (if round53 n \<ge> 2 ^ 1024 then Infinite else Amount (round53 n))"

definition parseInt_digits :: "string \<Rightarrow> amount" where
  "parseInt_digits ds = double_of_int (decimal_value ds)"

text \<open>
  The matches of \<^verbatim>\<open>/\$(\d+)/g\<close> in a string, each without its dollar sign: at a dollar
  sign followed by a digit the match takes the longest run of digits and the scan goes on
  behind it.
\<close>

function dollar_matches :: "string \<Rightarrow> string list" where
  "dollar_matches [] = []"
| "dollar_matches (c # cs) =
     (if c = CHR ''$'' \<and> takeWhile is_digit cs \<noteq> []
      then takeWhile is_digit cs # dollar_matches (dropWhile is_digit cs)
      else dollar_matches cs)"
  by pat_completeness auto
termination
  by (relation "measure length") (auto simp: length_dropWhile_le less_Suc_eq_le)

text \<open>
  \<^verbatim>\<open>parseEstimate(hint)\<close>: the number behind the first dollar sign that a digit follows;
  0 for a missing or empty hint and for a hint without a match.
\<close>

definition parseEstimate :: "string option \<Rightarrow> amount" where
  "parseEstimate hint =
     (case hint of
        None \<Rightarrow> Amount 0
      | Some h \<Rightarrow>
          if h = [] then Amount 0
          else (case dollar_matches h of [] \<Rightarrow> Amount 0 | m # _ \<Rightarrow> parseInt_digits m))"

section \<open>The price lookup client (the eBay module, src/unnamed/part_000)\<close>

text \<open>
  \<^verbatim>\<open>String(n)\<close> for a natural number below \<open>10^21\<close> (an index of a filter or an HTTP
  status).
\<close>

fun string_of_nat :: "nat \<Rightarrow> string" where
  "string_of_nat n =
     (if n < 10 then [char_of (48 + n)]
      else string_of_nat (n div 10) @ [char_of (48 + n mod 10)])"

declare string_of_nat.simps [simp del]

text \<open>
  The query parameters of a request, in the order of \<^verbatim>\<open>URLSearchParams\<close>; \<^verbatim>\<open>set\<close> replaces
  the first pair with the name and removes the others, or appends a new pair. The request
  to the marketplace is identified by these parameters (the base URL is a constant). A
  value that the source renders from a number with \<^verbatim>\<open>String\<close> is kept as that number.
\<close>

datatype param_value = Text string | Number amount

type_synonym params = "(string \<times> param_value) list"

fun params_set :: "params \<Rightarrow> string \<Rightarrow> param_value \<Rightarrow> params" where
  "params_set [] k v = [(k, v)]"
| "params_set ((k', v') # ps) k v =
     (if k' = k then (k, v) # filter (\<lambda>p. fst p \<noteq> k) ps
      else (k', v') # params_set ps k v)"

record item_filter =
  filter_name :: string
  filter_value :: "param_value + string list"
  filter_param :: "(string \<times> string) option"

record options =
  maxResults :: "nat option"
  categoryId :: "string option"
  minPrice :: "amount option"
  maxPrice :: "amount option"

text \<open>The process environment.\<close>

record env =
  EBAY_APP_ID :: "string option"

text \<open>The truth value of a string or number that may be missing.\<close>

definition truthy_string :: "string option \<Rightarrow> bool" where
  "truthy_string s = (case s of None \<Rightarrow> False | Some t \<Rightarrow> t \<noteq> [])"

definition truthy_number :: "amount option \<Rightarrow> bool" where
  "truthy_number n = (case n of None \<Rightarrow> False | Some k \<Rightarrow> k \<noteq> Amount 0)"

definition build_itemFilters :: "options \<Rightarrow> item_filter list" where
  "build_itemFilters opts =
     [\<lparr>filter_name = ''SoldItemsOnly'', filter_value = Inl (Text ''true''),
       filter_param = None\<rparr>,
      \<lparr>filter_name = ''Condition'',
       filter_value = Inr [''1000'', ''1500'', ''2000'', ''2500'', ''3000'', ''4000'',
                           ''5000'', ''6000''],
       filter_param = None\<rparr>]
     @ (if truthy_number (minPrice opts)
        then [\<lparr>filter_name = ''MinPrice'',
               filter_value = Inl (Number (the (minPrice opts))),
               filter_param = Some (''Currency'', ''USD'')\<rparr>]
        else [])
     @ (if truthy_number (maxPrice opts)
        then [\<lparr>filter_name = ''MaxPrice'',
               filter_value = Inl (Number (the (maxPrice opts))),
               filter_param = Some (''Currency'', ''USD'')\<rparr>]
        else [])"

text \<open>The body of \<^verbatim>\<open>itemFilters.forEach((filter, idx) => ...)\<close> for one filter.\<close>

definition set_filter :: "params \<Rightarrow> nat \<times> item_filter \<Rightarrow> params" where
  "set_filter ps p =
     (let idx = fst p; flt = snd p;
          pre = ''itemFilter('' @ string_of_nat idx @ '')'';
          ps1 = params_set ps (pre @ ''.name'') (Text (filter_name flt));
          ps2 = (case filter_value flt of
                   Inr vs \<Rightarrow>
                     foldl (\<lambda>q (vIdx, v).
                              params_set q (pre @ ''.value('' @ string_of_nat vIdx @ '')'')
                                (Text v))
                       ps1 (zip [0..<length vs] vs)
                 | Inl v \<Rightarrow> params_set ps1 (pre @ ''.value'') v)
      in case filter_param flt of
           None \<Rightarrow> ps2
         | Some (paramName, paramValue) \<Rightarrow>
             params_set (params_set ps2 (pre @ ''.paramName'') (Text paramName))
               (pre @ ''.paramValue'') (Text paramValue))"

definition build_params :: "string \<Rightarrow> string \<Rightarrow> options \<Rightarrow> params" where
  "build_params appId searchQuery opts =
     (let maxResults' = (case maxResults opts of None \<Rightarrow> 8 | Some n \<Rightarrow> n);
          itemFilters = build_itemFilters opts;
          ps = [(''OPERATION-NAME'', Text ''findCompletedItems''),
                (''SERVICE-VERSION'', Text ''1.13.0''),
                (''SECURITY-APPNAME'', Text appId),
                (''RESPONSE-DATA-FORMAT'', Text ''JSON''),
                (''REST-PAYLOAD'', Text ''true''),
                (''keywords'', Text searchQuery),
                (''paginationInput.entriesPerPage'', Number (Amount (int maxResults'))),
                (''sortOrder'', Text ''EndTimeSoonest'')];
          ps = (if truthy_string (categoryId opts)
                then params_set ps ''categoryId'' (Text (the (categoryId opts))) else ps)
      in foldl set_filter ps (zip [0..<length itemFilters] itemFilters))"

text \<open>
  What the marketplace answers. \<^verbatim>\<open>fetch\<close> either rejects (a network failure, with its
  message) or resolves to a response with a status; \<^verbatim>\<open>response.ok\<close> is a status from 200
  to 299. Reading the body either raises (\<^verbatim>\<open>response.json()\<close> rejects, or the parsed data
  is not an object of the expected shape and an access raises a TypeError), or gives
  \<^verbatim>\<open>data.findCompletedItemsResponse?.[0]\<close>, \<open>None\<close> when that is \<^verbatim>\<open>undefined\<close>. Of this
  result the record holds what \<^verbatim>\<open>findSoldListings\<close> reads: \<^verbatim>\<open>ack?.[0]\<close>, the message at
  \<^verbatim>\<open>errorMessage?.[0]?.error?.[0]?.message?.[0]\<close>, the listings of
  \<^verbatim>\<open>searchResult?.[0]?.item || []\<close> with their title and parsed price, and the number that
  \<^verbatim>\<open>parseInt\<close> reads from \<^verbatim>\<open>totalEntries\<close> (0 when it is missing). A price is the exact
  rational that \<^verbatim>\<open>parseFloat\<close> reads, 0 for a missing price; a text that is not a number
  (NaN, which fails \<^verbatim>\<open>p > 0\<close> as 0 does) is 0 as well.
\<close>

record finding_result =
  ack :: "string option"
  error_message :: "string option"
  search_items :: "listing list"
  total_entries :: nat

datatype response_body = BodyRaises string | Parsed "finding_result option"

datatype fetch_result = Rejects string | Resolves nat response_body

type_synonym network = "params \<Rightarrow> fetch_result"

text \<open>The result of a lookup: \<^verbatim>\<open>{ available: false, reason }\<close> or \<^verbatim>\<open>{ available: true, ...stats }\<close>.\<close>

datatype price_lookup = Unavailable "string option" | Available comp

text \<open>\<^verbatim>\<open>Math.round\<close> on an exact rational: the nearest integer, a half rounding up.\<close>

definition Math_round :: "rat \<Rightarrow> int" where
  "Math_round x = \<lfloor>x + 1 / 2\<rfloor>"

text \<open>
  \<^verbatim>\<open>median(arr)\<close>. It is called on a non-empty list only; on the empty list the source
  yields NaN, which the integer result cannot hold, and the embedding gives 0.
\<close>

definition median :: "rat list \<Rightarrow> int" where
  "median arr =
     (let sorted = sort arr; mid = length sorted div 2
      in if sorted = [] then 0
         else if length sorted mod 2 \<noteq> 0 then Math_round (sorted ! mid)
         else Math_round ((sorted ! (mid - 1) + sorted ! mid) / 2))"

text \<open>The \<^verbatim>\<open>try\<close> block of \<^verbatim>\<open>findSoldListings\<close>, from the outcome of \<^verbatim>\<open>fetch\<close> on.\<close>

definition read_response :: "fetch_result \<Rightarrow> js_error + price_lookup" where
  "read_response r =
     (case r of
        Rejects msg \<Rightarrow> Inl (Error msg)
      | Resolves status body \<Rightarrow>
          if \<not> (200 \<le> status \<and> status \<le> 299)
          then Inl (Error (''eBay API error: '' @ string_of_nat status))
          else
            (case body of
               BodyRaises msg \<Rightarrow> Inl (Error msg)
             | Parsed result \<Rightarrow>
                 if (case result of None \<Rightarrow> None | Some res \<Rightarrow> ack res) \<noteq> Some ''Success''
                 then
                   (let errorMsg =
                          (case result of None \<Rightarrow> None | Some res \<Rightarrow> error_message res)
                    in Inl (Error (if truthy_string errorMsg then the errorMsg
                                   else ''Unknown eBay API error'')))
                 else
                   (let soldItems = (case result of None \<Rightarrow> [] | Some res \<Rightarrow> search_items res);
                        total = (case result of None \<Rightarrow> 0 | Some res \<Rightarrow> total_entries res);
                        prices = filter (\<lambda>p. p > 0) (map soldPrice soldItems)
                    in Inr (Available
                         (if length prices > 0
                          then \<lparr>comp_count = length prices,
                                comp_totalResults = total,
                                comp_median = median prices,
                                comp_mean =
                                  Math_round (sum_list prices / of_nat (length prices)),
                                comp_low = Min (set prices),
                                comp_high = Max (set prices),
                                comp_recentSales = take 5 soldItems\<rparr>
                          else \<lparr>comp_count = 0, comp_totalResults = total, comp_median = 0,
                                comp_mean = 0, comp_low = 0, comp_high = 0,
                                comp_recentSales = []\<rparr>)))))"

text \<open>
  \<^verbatim>\<open>findSoldListings(searchQuery, options)\<close>. The result is the list of requests sent (none
  or one) and the outcome of the call: \<open>Inl\<close> would be an exception raised to the caller,
  \<open>Inr\<close> is the returned value. The \<^verbatim>\<open>catch\<close> turns what the \<^verbatim>\<open>try\<close> block raises into
  \<^verbatim>\<open>{ available: false, reason: err.message }\<close>.
\<close>

definition findSoldListings ::
  "env \<Rightarrow> network \<Rightarrow> string \<Rightarrow> options \<Rightarrow> params list \<times> (js_error + price_lookup)" where
  "findSoldListings e net searchQuery opts =
     (if \<not> truthy_string (EBAY_APP_ID e)
      then ([], Inr (Unavailable (Some ''EBAY_APP_ID not configured'')))
      else
        (let appId = the (EBAY_APP_ID e);
             url = build_params appId searchQuery opts
         in ([url],
             (case read_response (net url) of
                Inl err \<Rightarrow> Inr (Unavailable (Some (message err)))
              | Inr res \<Rightarrow> Inr res))))"

section \<open>The batch price enricher (\<^verbatim>\<open>batchPriceLookup\<close>, src/unnamed/part_000)\<close>

record lookup_entry =
  itemName :: "string option"
  ebay_result :: price_lookup

text \<open>
  The arithmetic of lines 357 and 358 on doubles. The constant \<^verbatim>\<open>0.3\<close> is the double
  \<open>5404319552844595 / 2^54\<close>; the product \<^verbatim>\<open>low * 0.3\<close> is the exact product rounded to
  53 significant bits, and \<^verbatim>\<open>Math.round\<close> takes the nearest integer, a half rounding up.
  The product \<^verbatim>\<open>high * 3\<close> is an integer, rounded to 53 significant bits, which
  \<^verbatim>\<open>Math.round\<close> leaves as it is.
\<close>

definition times_three_tenths :: "int \<Rightarrow> rat" where
  "times_three_tenths n = of_int (round53 (n * 5404319552844595)) / 2 ^ 54"

definition widen_low :: "amount \<Rightarrow> amount" where
  "widen_low low =
     (case low of
        Amount n \<Rightarrow> Amount (max 1 (Math_round (times_three_tenths n)))
      | Infinite \<Rightarrow> Infinite)"

definition widen_high :: "amount \<Rightarrow> amount" where
  "widen_high high = (case high of Amount n \<Rightarrow> double_of_int (n * 3) | Infinite \<Rightarrow> Infinite)"

text \<open>The price range of lines 349 to 360.\<close>

definition price_range :: "item \<Rightarrow> amount option \<times> amount option" where
  "price_range it =
     (if truthy_string (estimated_value_hint it)
      then (case dollar_matches (the (estimated_value_hint it)) of
              [] \<Rightarrow> (None, None)
            | m0 # ms \<Rightarrow>
                (let low = parseInt_digits m0;
                     high = parseInt_digits (case ms of [] \<Rightarrow> m0 | m1 # _ \<Rightarrow> m1)
                 in (Some (widen_low low), Some (widen_high high))))
      else (None, None))"

text \<open>
  The asynchronous callback of \<^verbatim>\<open>batch.map\<close> for one item: the requests it sends, and
  whether its promise is rejected (\<open>Inl\<close>) or fulfilled (\<open>Inr\<close>).
\<close>

definition lookup_task :: "env \<Rightarrow> network \<Rightarrow> item \<Rightarrow> params list \<times> (js_error + lookup_entry)" where
  "lookup_task e net it =
     (if \<not> truthy_string (search_query it)
      then ([], Inr \<lparr>itemName = name it,
                     ebay_result = Unavailable (Some ''No search query'')\<rparr>)
      else
        (let (minPrice', maxPrice') = price_range it;
             (requests, outcome) =
                findSoldListings e net (the (search_query it))
                  \<lparr>maxResults = None, categoryId = None,
                   minPrice = minPrice', maxPrice = maxPrice'\<rparr>
         in (requests,
             (case outcome of
                Inl err \<Rightarrow> Inl err
              | Inr res \<Rightarrow> Inr \<lparr>itemName = name it, ebay_result = res\<rparr>))))"

text \<open>What the loop over \<^verbatim>\<open>batchResults\<close> pushes for one settled promise.\<close>

definition settled_entry :: "js_error + lookup_entry \<Rightarrow> lookup_entry" where
  "settled_entry r =
     (case r of
        Inr v \<Rightarrow> v
      | Inl reason \<Rightarrow>
          \<lparr>itemName = Some ''unknown'', ebay_result = Unavailable (Some (message reason))\<rparr>)"

text \<open>
  One batch: the callbacks start in the order of the items, each sending its request
  before the next starts, and \<^verbatim>\<open>Promise.allSettled\<close> keeps the order of the promises.
\<close>

definition run_batch :: "env \<Rightarrow> network \<Rightarrow> item list \<Rightarrow> lookup_entry list \<times> params list" where
  "run_batch e net batch =
     (let tasks = map (lookup_task e net) batch
      in (map (settled_entry \<circ> snd) tasks, concat (map fst tasks)))"

text \<open>
  The loop \<^verbatim>\<open>for (let i = 0; i < items.length; i += concurrency)\<close>, with the results and
  the requests sent so far. With \<open>concurrency = 0\<close> and an item left, the source's loop
  never ends; the result is then \<open>None\<close>.
\<close>

partial_function (option) batch_loop ::
  "env \<Rightarrow> network \<Rightarrow> item list \<Rightarrow> nat \<Rightarrow> nat \<Rightarrow> lookup_entry list \<Rightarrow> params list
     \<Rightarrow> (lookup_entry list \<times> params list) option" where
  "batch_loop e net its concurrency i results requests =
     (if i < length its
      then batch_loop e net its concurrency (i + concurrency)
             (results @ fst (run_batch e net (take concurrency (drop i its))))
             (requests @ snd (run_batch e net (take concurrency (drop i its))))
      else Some (results, requests))"

declare batch_loop.simps [code]

definition batchPriceLookup ::
  "env \<Rightarrow> network \<Rightarrow> item list \<Rightarrow> nat \<Rightarrow> (lookup_entry list \<times> params list) option" where
  "batchPriceLookup e net its concurrency = batch_loop e net its concurrency 0 [] []"

section \<open>The orchestrator from the gathered items on (\<^verbatim>\<open>POST\<close>, src/app/api/analyze/route.js)\<close>

text \<open>The object that \<^verbatim>\<open>POST\<close> stores in the \<^verbatim>\<open>ebay\<close> field of an item.\<close>

definition ebay_fields :: "comp \<Rightarrow> comp" where
  "ebay_fields st =
     \<lparr>comp_count = comp_count st, comp_totalResults = comp_totalResults st,
      comp_median = comp_median st, comp_mean = comp_mean st, comp_low = comp_low st,
      comp_high = comp_high st, comp_recentSales = comp_recentSales st\<rparr>"

text \<open>
  The body of the merge loop of lines 234 to 250 for one item: the first lookup with the
  item's name, attached when it is available with a positive count. The second
  component tells whether it was attached.
\<close>

definition attach_lookup :: "lookup_entry list \<Rightarrow> item \<Rightarrow> item \<times> bool" where
  "attach_lookup priceLookups it =
     (case find (\<lambda>r. itemName r = name it) priceLookups of
        None \<Rightarrow> (it, False)
      | Some lookup \<Rightarrow>
          (case ebay_result lookup of
             Unavailable reason \<Rightarrow> (it, False)
           | Available st \<Rightarrow>
               if comp_count st > 0 then (it\<lparr>ebay := Some (ebay_fields st)\<rparr>, True)
               else (it, False)))"

text \<open>
  The sort key \<^verbatim>\<open>a.ebay?.median || parseEstimate(a.estimated_value_hint)\<close>: the operator
  \<^verbatim>\<open>||\<close> takes its right operand when the left one is \<^verbatim>\<open>undefined\<close> or 0.
\<close>

definition number_of_amount :: "amount \<Rightarrow> number" where
  "number_of_amount a = (case a of Amount n \<Rightarrow> Fin n | Infinite \<Rightarrow> PosInf)"

definition sort_value :: "item \<Rightarrow> number" where
  "sort_value a =
     (case ebay a of
        None \<Rightarrow> number_of_amount (parseEstimate (estimated_value_hint a))
      | Some c \<Rightarrow>
          if truthy_value (Fin (comp_median c)) then Fin (comp_median c)
          else number_of_amount (parseEstimate (estimated_value_hint a)))"

definition value_cmp :: "item \<Rightarrow> item \<Rightarrow> number" where
  "value_cmp a b =
     (let valueA = sort_value a; valueB = sort_value b in number_minus valueB valueA)"

record report =
  report_items :: "item list"
  itemsFound :: nat
  ebayAvailable :: bool

datatype response = Report report | ErrorResponse nat string string

text \<open>
  \<^verbatim>\<open>POST\<close> from step 3 on, for the items \<open>allItems\<close> gathered from the photos:
  deduplication, the price lookups when \<^verbatim>\<open>EBAY_APP_ID\<close> is set, the sort by value and the
  report; an exception of \<^verbatim>\<open>deduplicateItems\<close> reaches the outer \<^verbatim>\<open>catch\<close>, which answers
  with status 500. \<open>None\<close> stands for a call that does not return. The totals of the
  summary and the photo counts are left out.
\<close>

definition POST_from_items ::
  "lower \<Rightarrow> env \<Rightarrow> network \<Rightarrow> item list \<Rightarrow> response option" where
  "POST_from_items toLowerCase e net allItems =
     (case deduplicateItems_default toLowerCase allItems of
        Inl error \<Rightarrow> Some (ErrorResponse 500 ''Analysis failed'' (message error))
      | Inr deduplicated \<Rightarrow>
          (case (if truthy_string (EBAY_APP_ID e)
                 then (case batchPriceLookup e net deduplicated 3 of
                         None \<Rightarrow> None
                       | Some (priceLookups, requests) \<Rightarrow>
                           Some (map (attach_lookup priceLookups) deduplicated))
                 else Some (map (\<lambda>it. (it, False)) deduplicated)) of
             None \<Rightarrow> None
           | Some merged \<Rightarrow>
               Some (Report
                 \<lparr>report_items = js_sort value_cmp (map fst merged),
                  itemsFound = length merged,
                  ebayAvailable = (\<exists>m \<in> set merged. snd m)\<rparr>)))"

section \<open>Auxiliary notions for the proofs\<close>

text \<open>
  Two items are apart when, if they share a category, both similarity calls of the
  deduplicator return and stay below their thresholds.
\<close>

definition apart :: "lower \<Rightarrow> rat \<Rightarrow> rat \<Rightarrow> item \<Rightarrow> item \<Rightarrow> bool" where
  "apart lc nt qt a b =
     (category a = category b \<longrightarrow>
        (\<exists>s q. similarity_js lc (name a) (name b) = Inr s \<and>
               similarity_js lc (search_query a) (search_query b) = Inr q \<and>
               s < nt \<and> q < qt))"

definition pairwise_apart :: "lower \<Rightarrow> rat \<Rightarrow> rat \<Rightarrow> item list \<Rightarrow> bool" where
  "pairwise_apart lc nt qt xs = sorted_wrt (\<lambda>a b. apart lc nt qt b a) xs"

text \<open>An item without its feature list: what the merge of a duplicate leaves unchanged.\<close>

definition strip :: "item \<Rightarrow> item" where
  "strip x = x\<lparr>notable_features := Absent\<rparr>"



section \<open>Example inputs\<close>

text \<open>
  The lower-casing of a string of ASCII and Latin-1 code units, which the examples are
  made of: \<open>A..Z\<close> and \<open>U+00C0..U+00DE\<close> (except the multiplication sign \<open>U+00D7\<close>) go
  to the code unit 32 above.
\<close>

definition latin1_lower_char :: "char \<Rightarrow> char" where
  "latin1_lower_char c =
     (let n = (of_char c :: nat)
      in if (65 \<le> n \<and> n \<le> 90) \<or> (192 \<le> n \<and> n \<le> 222 \<and> n \<noteq> 215)
         then char_of (n + 32) else c)"

definition latin1_lower :: lower where
  "latin1_lower s = map latin1_lower_char s"

text \<open>A detected item with every field present except the comp data.\<close>

definition detected ::
  "string \<Rightarrow> string \<Rightarrow> string \<Rightarrow> string list \<Rightarrow> string option \<Rightarrow> string option \<Rightarrow> item" where
  "detected n c conf fs q h =
     \<lparr>name = Some n, category = Some c, confidence = Some conf,
      notable_features = Iterable fs, search_query = q, estimated_value_hint = h,
      ebay = None\<rparr>"

definition ex_lamp_high :: item where
  "ex_lamp_high =
     detected ''Brass lamp'' ''furniture'' ''high'' [''brass''] (Some ''brass lamp'')
       (Some ''$40-$60'')"

definition ex_lamp_low :: item where
  "ex_lamp_low =
     detected ''Brass lamp'' ''furniture'' ''low'' [''shade'', ''brass'']
       (Some ''vintage lamp'') None"

definition ex_desk :: item where
  "ex_desk =
     detected ''Oak desk'' ''furniture'' ''medium'' [] (Some ''oak writing desk'')
       (Some ''$5'')"

text \<open>
  The lamp of low confidence once more, with the confidence \<^verbatim>\<open>constructor\<close>, and the
  desk with a high confidence.
\<close>

definition ex_lamp_constructor :: item where
  "ex_lamp_constructor = ex_lamp_low\<lparr>confidence := Some ''constructor''\<rparr>"

definition ex_desk_high :: item where
  "ex_desk_high = ex_desk\<lparr>confidence := Some ''high''\<rparr>"


definition ex_env :: env where
  "ex_env = \<lparr>EBAY_APP_ID = Some ''app''\<rparr>"

definition ex_options :: options where
  "ex_options = \<lparr>maxResults = None, categoryId = None, minPrice = None, maxPrice = None\<rparr>"

text \<open>
  Marketplaces: unreachable, out of service, answering with a body that is not JSON,
  reporting an error, and answering.
\<close>

definition ex_net_down :: network where
  "ex_net_down url = Rejects ''fetch failed''"

definition ex_net_503 :: network where
  "ex_net_503 url = Resolves 503 (BodyRaises ''Unexpected end of JSON input'')"

definition ex_net_garbled :: network where
  "ex_net_garbled url = Resolves 200 (BodyRaises ''Unexpected token < in JSON'')"

definition ex_net_failure :: network where
  "ex_net_failure url =
     Resolves 200 (Parsed (Some \<lparr>ack = Some ''Failure'',
                                   error_message = Some ''Invalid keywords'',
                                   search_items = [], total_entries = 0\<rparr>))"

text \<open>
  A marketplace that honours the price filter: a request with a minimum price finds
  nothing, a request without one finds a single sale at a quarter of a dollar.
\<close>

definition ex_net_quarter :: network where
  "ex_net_quarter url =
     (if map_of url ''itemFilter(2).name'' = Some (Text ''MinPrice'')
      then Resolves 200 (Parsed (Some \<lparr>ack = Some ''Success'', error_message = None,
                                        search_items = [], total_entries = 0\<rparr>))
      else Resolves 200 (Parsed (Some \<lparr>ack = Some ''Success'', error_message = None,
                                        search_items = [\<lparr>title = ''pin'', soldPrice = 1 / 4\<rparr>],
                                        total_entries = 1\<rparr>)))"

text \<open>
  Three items without a confidence level: two pins of different categories, of which
  only the second has a value hint, and a cup without a search phrase.
\<close>

definition ex_pin_jewelry :: item where
  "ex_pin_jewelry =
     \<lparr>name = Some ''pin'', category = Some ''jewelry'', confidence = None,
      notable_features = Absent, search_query = Some ''pin'', estimated_value_hint = None,
      ebay = None\<rparr>"

definition ex_pin_other :: item where
  "ex_pin_other =
     \<lparr>name = Some ''pin'', category = Some ''other'', confidence = None,
      notable_features = Absent, search_query = Some ''pin'',
      estimated_value_hint = Some ''$50'', ebay = None\<rparr>"

definition ex_cup :: item where
  "ex_cup =
     \<lparr>name = Some ''cup'', category = Some ''kitchenware'', confidence = None,
      notable_features = Absent, search_query = None, estimated_value_hint = Some ''$10'',
      ebay = None\<rparr>"

text \<open>The comp data of the single sale at a quarter of a dollar.\<close>

definition ex_comp :: comp where
  "ex_comp =
     \<lparr>comp_count = 1, comp_totalResults = 1, comp_median = 0, comp_mean = 0,
      comp_low = 1 / 4, comp_high = 1 / 4,
      comp_recentSales = [\<lparr>title = ''pin'', soldPrice = 1 / 4\<rparr>]\<rparr>"

text \<open>The report for the two pins and the cup, with the marketplace above.\<close>

definition ex_report :: report where
  "ex_report =
     \<lparr>report_items = [ex_pin_other\<lparr>ebay := Some ex_comp\<rparr>, ex_cup,
                      ex_pin_jewelry\<lparr>ebay := Some ex_comp\<rparr>],
      itemsFound = 3, ebayAvailable = True\<rparr>"

section \<open>Lemmas\<close>


lemma get_count_upd: "get_count (m(g \<mapsto> v)) h = (if h = g then v else get_count m h)"
  by (simp add: get_count_def)

lemma get_count_count_bigrams:
  "get_count (count_bigrams m gs) g = get_count m g + count (mset gs) g"
  by (induction gs arbitrary: m) (auto simp: get_count_upd)

lemma consume_bigrams_inter:
  "(\<And>g. get_count m g = count M g) \<Longrightarrow>
   consume_bigrams m k gs = k + size (M \<inter># mset gs)"
proof (induction gs arbitrary: m M k)
  case Nil
  then show ?case by simp
next
  case (Cons g gs)
  show ?case
  proof (cases "count M g > 0")
    case True
    have upd: "\<And>h. get_count (m(g \<mapsto> get_count m g - 1)) h = count (M - {#g#}) h"
      using Cons.prems by (simp add: get_count_upd)
    have "g \<in># M" using True by simp
    then have "M \<inter># add_mset g (mset gs) = add_mset g ((M - {#g#}) \<inter># mset gs)"
      by (rule inter_add_right2)
    then have sz: "size (M \<inter># mset (g # gs)) = Suc (size ((M - {#g#}) \<inter># mset gs))"
      by simp
    have "consume_bigrams m k (g # gs)
            = consume_bigrams (m(g \<mapsto> get_count m g - 1)) (k + 1) gs"
      using True Cons.prems by (simp add: Let_def)
    also have "\<dots> = (k + 1) + size ((M - {#g#}) \<inter># mset gs)"
      by (rule Cons.IH [OF upd])
    finally show ?thesis using sz by simp
  next
    case False
    then have "\<not> g \<in># M" by (simp add: not_in_iff)
    then have "M \<inter># add_mset g (mset gs) = M \<inter># mset gs"
      by (rule inter_add_right1)
    then have sz: "size (M \<inter># mset (g # gs)) = size (M \<inter># mset gs)"
      by simp
    have "consume_bigrams m k (g # gs) = consume_bigrams m k gs"
      using False Cons.prems by (simp add: Let_def)
    also have "\<dots> = k + size (M \<inter># mset gs)"
      by (rule Cons.IH [OF Cons.prems])
    finally show ?thesis using sz by simp
  qed
qed

lemma intersections_mset:
  "consume_bigrams (count_bigrams Map.empty xs) 0 ys = size (mset xs \<inter># mset ys)"
proof -
  have "\<And>g. get_count (count_bigrams Map.empty xs) g = count (mset xs) g"
    by (simp add: get_count_count_bigrams) (simp add: get_count_def)
  then show ?thesis
    using consume_bigrams_inter [of "count_bigrams Map.empty xs" "mset xs" 0 ys] by simp
qed

lemma similarity_commute: "similarity lc a b = similarity lc b a"
proof -
  have eq: "(lc a = lc b) = (lc b = lc a)"
    by (rule eq_commute)
  show ?thesis
    unfolding similarity_def Let_def intersections_mset eq
    by (simp add: multiset_inter_commute add.commute disj_commute)
qed


lemma apart_strip: "apart lc nt qt (strip a) (strip b) = apart lc nt qt a b"
  by (simp add: apart_def strip_def)

lemma strip_merge_features:
  "merge_features existing it = Inr merged \<Longrightarrow> strip merged = strip existing"
  by (auto simp: strip_def merge_features_def Let_def split: features.splits)

lemma scan_kept_None:
  "scan_kept lc nt qt item kept = Inr None \<longleftrightarrow> (\<forall>e \<in> set kept. apart lc nt qt item e)"
proof (induction kept)
  case Nil
  then show ?case by simp
next
  case (Cons existing kept)
  show ?case
  proof (cases "category item = category existing")
    case False
    then show ?thesis using Cons.IH
      by (auto simp: apart_def split: sum.splits option.splits)
  next
    case True
    then show ?thesis using Cons.IH
      by (auto simp: apart_def not_le split: sum.splits option.splits)
  qed
qed

lemma scan_kept_Some:
  "scan_kept lc nt qt item kept = Inr (Some kept') \<Longrightarrow> map strip kept' = map strip kept"
proof (induction kept arbitrary: kept')
  case Nil
  then show ?case by simp
next
  case (Cons existing kept)
  then show ?case
    by (auto split: if_splits sum.splits option.splits dest: strip_merge_features)
qed

lemma similarity_js_commute: "similarity_js lc a b = similarity_js lc b a"
  by (cases a; cases b) (simp_all add: similarity_js_def similarity_commute)

lemma apart_commute: "apart lc nt qt a b = apart lc nt qt b a"
  unfolding apart_def
  by (subst similarity_js_commute [of lc "name a"], subst similarity_js_commute [of lc "search_query a"]) auto

lemma pairwise_apart_strip:
  assumes "map strip xs = map strip ys"
  shows "pairwise_apart lc nt qt xs = pairwise_apart lc nt qt ys"
proof -
  have "\<And>zs. pairwise_apart lc nt qt zs = sorted_wrt (\<lambda>a b. apart lc nt qt b a) (map strip zs)"
    by (simp add: pairwise_apart_def sorted_wrt_map apart_strip)
  then show ?thesis using assms by simp
qed

lemma pairwise_apart_snoc:
  "pairwise_apart lc nt qt (kept @ [item]) \<longleftrightarrow>
     pairwise_apart lc nt qt kept \<and> (\<forall>e \<in> set kept. apart lc nt qt item e)"
  by (simp add: pairwise_apart_def sorted_wrt_append)

lemma dedup_loop_pairwise_apart:
  "pairwise_apart lc nt qt kept \<Longrightarrow> dedup_loop lc nt qt kept rest = Inr out \<Longrightarrow>
   pairwise_apart lc nt qt out"
proof (induction rest arbitrary: kept)
  case Nil
  then show ?case by simp
next
  case (Cons item rest)
  show ?case
  proof (cases "scan_kept lc nt qt item kept")
    case (Inl e)
    then show ?thesis using Cons.prems by simp
  next
    case (Inr r)
    show ?thesis
    proof (cases r)
      case None
      then have "pairwise_apart lc nt qt (kept @ [item])"
        using Inr Cons.prems(1) by (simp add: pairwise_apart_snoc scan_kept_None)
      moreover have "dedup_loop lc nt qt (kept @ [item]) rest = Inr out"
        using Inr None Cons.prems(2) by simp
      ultimately show ?thesis by (rule Cons.IH)
    next
      case (Some kept')
      then have "pairwise_apart lc nt qt kept'"
        using Inr Cons.prems(1) pairwise_apart_strip [OF scan_kept_Some] by blast
      moreover have "dedup_loop lc nt qt kept' rest = Inr out"
        using Inr Some Cons.prems(2) by simp
      ultimately show ?thesis by (rule Cons.IH)
    qed
  qed
qed






lemma deduplicateItems_pairwise_apart:
  "deduplicateItems lc its nt qt = Inr out \<Longrightarrow> pairwise_apart lc nt qt out"
  unfolding deduplicateItems_def Let_def
  by (rule dedup_loop_pairwise_apart [of lc nt qt "[]"]) (simp_all add: pairwise_apart_def)



lemma findSoldListings_returns:
  "\<exists>res. snd (findSoldListings e net q opts) = Inr res"
  by (simp add: findSoldListings_def Let_def split: sum.splits)

lemma findSoldListings_snd:
  "truthy_string (EBAY_APP_ID e) \<Longrightarrow>
   snd (findSoldListings e net q opts) =
     (case read_response (net (build_params (the (EBAY_APP_ID e)) q opts)) of
        Inl err \<Rightarrow> Inr (Unavailable (Some (message err)))
      | Inr res \<Rightarrow> Inr res)"
  by (simp add: findSoldListings_def Let_def)

lemma lookup_task_no_query:
  "\<not> truthy_string (search_query it) \<Longrightarrow>
   lookup_task e net it =
     ([], Inr \<lparr>itemName = name it, ebay_result = Unavailable (Some ''No search query'')\<rparr>)"
  by (simp add: lookup_task_def)

lemma take_drop_append: "take c (drop i xs) @ drop (i + c) xs = drop i xs"
  by (metis add.commute append_take_drop_id drop_drop)

lemma batch_loop_result:
  assumes "0 < c"
  shows "batch_loop e net its c i results requests =
           Some (results @ map (settled_entry \<circ> snd \<circ> lookup_task e net) (drop i its),
                 requests @ concat (map (fst \<circ> lookup_task e net) (drop i its)))"
proof (induction "length its - i" arbitrary: i results requests rule: less_induct)
  case less
  show ?case
  proof (cases "i < length its")
    case False
    then show ?thesis by (subst batch_loop.simps) simp
  next
    case True
    have dec: "length its - (i + c) < length its - i"
      using True assms by simp
    have split_r: "map (settled_entry \<circ> snd \<circ> lookup_task e net) (drop i its) =
        fst (run_batch e net (take c (drop i its))) @
        map (settled_entry \<circ> snd \<circ> lookup_task e net) (drop (i + c) its)"
    proof -
      have "map (settled_entry \<circ> snd \<circ> lookup_task e net) (drop i its) =
            map (settled_entry \<circ> snd \<circ> lookup_task e net)
              (take c (drop i its) @ drop (i + c) its)"
        by (rule arg_cong [OF take_drop_append [symmetric]])
      then show ?thesis by (simp add: run_batch_def Let_def)
    qed
    have split_q: "concat (map (fst \<circ> lookup_task e net) (drop i its)) =
        snd (run_batch e net (take c (drop i its))) @
        concat (map (fst \<circ> lookup_task e net) (drop (i + c) its))"
    proof -
      have "concat (map (fst \<circ> lookup_task e net) (drop i its)) =
            concat (map (fst \<circ> lookup_task e net) (take c (drop i its) @ drop (i + c) its))"
        by (rule arg_cong [OF take_drop_append [symmetric]])
      then show ?thesis by (simp add: run_batch_def Let_def)
    qed
    show ?thesis
      by (subst batch_loop.simps) (simp add: True less [OF dec] split_r split_q)
  qed
qed

lemma batchPriceLookup_result:
  "0 < c \<Longrightarrow>
   batchPriceLookup e net its c =
     Some (map (settled_entry \<circ> snd \<circ> lookup_task e net) its,
           concat (map (fst \<circ> lookup_task e net) its))"
  by (simp add: batchPriceLookup_def batch_loop_result)








lemma concat_map_without:
  assumes "i < length xs" and "f (xs ! i) = []"
  shows "concat (map f (take i xs @ drop (Suc i) xs)) = concat (map f xs)"
proof -
  have "concat (map f xs) = concat (map f (take i xs @ xs ! i # drop (Suc i) xs))"
    using assms(1) by (simp flip: id_take_nth_drop)
  then show ?thesis using assms(2) by simp
qed



lemma bit_length_bounds:
  "0 < n \<Longrightarrow> 2 ^ (bit_length n - 1) \<le> n \<and> n < 2 ^ bit_length n"
proof (induction n rule: bit_length.induct)
  case (1 n)
  show ?case
  proof (cases "n div 2 = 0")
    case True
    then have "n = 1" using "1.prems" by presburger
    then show ?thesis
      by (simp add: bit_length.simps [of 1] bit_length.simps [of 0])
  next
    case False
    then have pos: "0 < n div 2" using "1.prems" by presburger
    then have ih: "2 ^ (bit_length (n div 2) - 1) \<le> n div 2"
                  "n div 2 < 2 ^ bit_length (n div 2)"
      using "1.IH" "1.prems" by auto
    have b: "bit_length n = Suc (bit_length (n div 2))"
      using "1.prems" by (subst bit_length.simps) simp
    have bpos: "0 < bit_length (n div 2)"
      using pos by (subst bit_length.simps) simp
    then obtain b' where b': "bit_length (n div 2) = Suc b'"
      by (cases "bit_length (n div 2)") auto
    have "2 * 2 ^ b' \<le> n"
      using ih(1) b' by simp
    moreover have "n < 2 * 2 ^ bit_length (n div 2)"
      using ih(2) by presburger
    ultimately show ?thesis using b b' by simp
  qed
qed

lemma bit_length_le: "n < 2 ^ k \<Longrightarrow> bit_length n \<le> k"
proof (cases "0 < n")
  case False
  then show ?thesis by (subst bit_length.simps) simp
next
  case True
  assume "n < 2 ^ k"
  then have "(2::int) ^ (bit_length n - 1) < 2 ^ k"
    using bit_length_bounds [OF True] by linarith
  then have "bit_length n - 1 < k"
    by (simp add: power_strict_increasing_iff)
  then show ?thesis by simp
qed

lemma round53_exact:
  assumes "n < 2 ^ 53"
  shows "round53 n = n"
proof -
  have "bit_length n - 53 = 0"
    using bit_length_le [OF assms] by simp
  then show ?thesis by (simp add: round53_def)
qed

lemma round53_cases:
  fixes N :: int
  defines "P \<equiv> 2 ^ (bit_length N - 53)"
  obtains (up) "round53 N = N div P * P + P" and "P \<le> 2 * (N mod P)"
        | (down) "round53 N = N div P * P" and "2 * (N mod P) \<le> P"
proof (cases "2 * (N mod P) > P \<or> (2 * (N mod P) = P \<and> odd (N div P))")
  case True
  then have "round53 N = (N div P + 1) * P"
    unfolding round53_def Let_def P_def by (simp only: if_True)
  then have "round53 N = N div P * P + P" by (simp add: algebra_simps)
  moreover have "P \<le> 2 * (N mod P)" using True by auto
  ultimately show ?thesis by (rule up)
next
  case False
  then have "round53 N = N div P * P"
    unfolding round53_def Let_def P_def by (simp only: if_False)
  moreover have "2 * (N mod P) \<le> P" using False by auto
  ultimately show ?thesis by (rule down)
qed

lemma round53_upper: "2 * round53 N \<le> 2 * N + 2 ^ (bit_length N - 53)"
proof -
  define P :: int where "P = 2 ^ (bit_length N - 53)"
  define Q where "Q = N div P * P"
  define r where "r = N mod P"
  have P: "0 < P" by (simp add: P_def)
  have N: "N = Q + r" by (simp add: Q_def r_def)
  have r: "0 \<le> r" "r < P" using P by (simp_all add: r_def)
  show ?thesis
  proof (cases N rule: round53_cases)
    case up
    then have "round53 N = Q + P" "P \<le> 2 * r"
      by (simp_all add: Q_def r_def P_def)
    then show ?thesis using N unfolding P_def [symmetric] by linarith
  next
    case down
    then have "round53 N = Q"
      by (simp add: Q_def P_def)
    then show ?thesis using N r P unfolding P_def [symmetric] by linarith
  qed
qed

lemma round53_lower:
  assumes "2 ^ (bit_length N - 53) dvd B" and "2 * (B - N) < 2 ^ (bit_length N - 53)"
  shows "B \<le> round53 N"
proof -
  define P :: int where "P = 2 ^ (bit_length N - 53)"
  define q where "q = N div P"
  define Q where "Q = q * P"
  define r where "r = N mod P"
  have P: "0 < P" by (simp add: P_def)
  have N: "N = Q + r" by (simp add: Q_def q_def r_def)
  have r: "0 \<le> r" "r < P" using P by (simp_all add: r_def)
  obtain m where B: "B = m * P"
    using assms(1) unfolding P_def [symmetric] by (auto simp: dvd_def mult.commute)
  have close: "2 * (B - N) < P" using assms(2) by (simp add: P_def)
  have ge: "Q \<le> round53 N"
    using P by (cases N rule: round53_cases) (simp_all add: Q_def q_def P_def)
  consider "m \<le> q" | "m = q + 1" | "q + 2 \<le> m" by linarith
  then show ?thesis
  proof cases
    case 1
    then have "m * P \<le> q * P" using P by (simp add: mult_right_mono)
    then show ?thesis using B ge by (simp add: Q_def)
  next
    case 2
    then have BQ: "B = Q + P" using B by (simp add: algebra_simps Q_def)
    then have "B - N = P - r" using N by simp
    then have "2 * r > P" using close by simp
    then have "round53 N = Q + P"
      by (cases N rule: round53_cases) (simp_all add: Q_def q_def r_def P_def)
    then show ?thesis using BQ by simp
  next
    case 3
    then have "(q + 2) * P \<le> m * P" using P by (simp add: mult_right_mono)
    then have "Q + 2 * P \<le> B" using B by (simp add: algebra_simps Q_def)
    then have "2 * P - r \<le> B - N" using N by simp
    then have False using close r by simp
    then show ?thesis ..
  qed
qed

lemma round53_scale: "0 \<le> N \<Longrightarrow> N < 2 ^ (bit_length N - 53) * 2 ^ 53"
proof (cases "0 < N")
  case False
  assume "0 \<le> N"
  then have "N = 0" using False by simp
  then show ?thesis by simp
next
  case True
  have "bit_length N \<le> (bit_length N - 53) + 53" by simp
  then have "(2::int) ^ bit_length N \<le> 2 ^ ((bit_length N - 53) + 53)"
    by (rule power_increasing) simp
  then show ?thesis
    using bit_length_bounds [OF True] by (simp add: power_add)
qed



lemma double_of_int_exact: "n < 2 ^ 53 \<Longrightarrow> double_of_int n = Amount n"
proof -
  assume n: "n < 2 ^ 53"
  have "(2::int) ^ 53 < 2 ^ 1024" by (rule power_strict_increasing) simp_all
  then show ?thesis using n by (simp add: double_of_int_def round53_exact)
qed

lemma widen_high_exact: "3 * n < 2 ^ 53 \<Longrightarrow> widen_high (Amount n) = Amount (3 * n)"
  by (simp add: widen_high_def double_of_int_exact mult.commute)

lemma Math_round_times_three_tenths:
  assumes "0 \<le> n" and "n < 2 ^ 50"
  shows "Math_round (times_three_tenths n) = (3 * n + 5) div 10"
proof -
  define N where "N = n * 5404319552844595"
  define y where "y = round53 N"
  define P :: int where "P = 2 ^ (bit_length N - 53)"
  define t where "t = (3 * n + 5) div 10"
  define B where "B = (2 * t - 1) * 2 ^ 53"
  have t: "10 * t \<le> 3 * n + 5" "3 * n + 5 < 10 * t + 10"
    unfolding t_def by presburger+
  have n50: "n < 1125899906842624" using assms(2) by simp
  have N0: "0 \<le> N" using assms(1) by (simp add: N_def)
  have "N < 2 ^ 103" using assms(1) n50 by (simp add: N_def)
  then have "bit_length N - 53 \<le> 50" using bit_length_le [of N 103] by simp
  then have "P \<le> 2 ^ 50" unfolding P_def by (intro power_increasing) simp_all
  then have P50: "P \<le> 1125899906842624" by simp
  have Ppos: "0 < P" by (simp add: P_def)
  have "bit_length N - 53 \<le> 53" using \<open>bit_length N - 53 \<le> 50\<close> by simp
  then have "P dvd 2 ^ 53" unfolding P_def by (rule le_imp_power_dvd)
  then have PB: "P dvd B" unfolding B_def by (rule dvd_mult)
  have "N < P * 2 ^ 53" using round53_scale [OF N0] by (simp add: P_def)
  then have NP: "N < P * 9007199254740992" by simp
  have n2P: "n < 2 * P" using NP assms(1) by (simp add: N_def)
  have B: "B = (2 * t - 1) * 9007199254740992" by (simp add: B_def)
  have "10 * (B - N) \<le> 2 * n"
    using t(1) by (simp add: B N_def)
  then have "2 * (B - N) < P" using n2P Ppos by linarith
  then have low: "B \<le> y"
    unfolding y_def using PB by (intro round53_lower) (simp_all add: P_def)
  have "2 * y \<le> 2 * N + P"
    unfolding y_def P_def by (rule round53_upper)
  then have up: "y < (2 * t + 1) * 9007199254740992"
    using t(2) P50 assms(1) by (simp add: N_def)
  have div: "(y + 2 ^ 53) div 2 ^ 54 = t"
  proof (rule int_div_pos_eq)
    show "y + 2 ^ 53 = 2 ^ 54 * t + (y + 2 ^ 53 - 2 ^ 54 * t)" by simp
    show "0 \<le> y + 2 ^ 53 - 2 ^ 54 * t" using low by (simp add: B)
    show "y + 2 ^ 53 - 2 ^ 54 * t < 2 ^ 54" using up by simp
  qed
  have "(of_int y / 2 ^ 54 + 1 / 2 :: rat) = of_int (y + 2 ^ 53) / of_int (2 ^ 54)"
    by (simp add: field_simps)
  then have "Math_round (times_three_tenths n) =
             \<lfloor>(of_int (y + 2 ^ 53) / of_int (2 ^ 54) :: rat)\<rfloor>"
    unfolding Math_round_def times_three_tenths_def N_def [symmetric] y_def [symmetric]
    by (rule arg_cong)
  also have "\<dots> = (y + 2 ^ 53) div 2 ^ 54"
    by (rule floor_divide_of_int_eq)
  finally show ?thesis using div by (simp add: t_def)
qed

lemma widen_low_exact:
  "0 \<le> n \<Longrightarrow> n < 2 ^ 50 \<Longrightarrow> widen_low (Amount n) = Amount (max 1 ((3 * n + 5) div 10))"
  by (simp add: widen_low_def Math_round_times_three_tenths)



lemma dollar_matches_digits:
  "m \<in> set (dollar_matches h) \<Longrightarrow> c \<in> set m \<Longrightarrow> is_digit c"
proof (induction h rule: dollar_matches.induct)
  case 1
  then show ?case by simp
next
  case (2 d cs)
  then show ?case
    by (auto split: if_splits dest: set_takeWhileD)
qed

lemma foldl_decimal_nonneg:
  "0 \<le> a \<Longrightarrow> \<forall>c \<in> set ds. is_digit c \<Longrightarrow>
   0 \<le> foldl (\<lambda>n c. 10 * n + ((of_char c :: int) - 48)) a ds"
proof (induction ds arbitrary: a)
  case Nil
  then show ?case by simp
next
  case (Cons d ds)
  have "48 \<le> (of_char d :: nat)" using Cons.prems(2) by (simp add: is_digit_def)
  then have "48 \<le> (of_char d :: int)"
    by (metis of_char_of of_nat_le_iff of_nat_numeral of_nat_of_char)
  then have "0 \<le> 10 * a + ((of_char d :: int) - 48)" using Cons.prems(1) by simp
  then show ?case using Cons.IH Cons.prems(2) by simp
qed

lemma decimal_value_nonneg: "\<forall>c \<in> set ds. is_digit c \<Longrightarrow> 0 \<le> decimal_value ds"
  unfolding decimal_value_def by (rule foldl_decimal_nonneg) simp_all

lemma parseInt_digits_exact:
  "decimal_value ds < 2 ^ 53 \<Longrightarrow> parseInt_digits ds = Amount (decimal_value ds)"
  by (simp add: parseInt_digits_def double_of_int_exact)

lemma Math_round_three_tenths: "Math_round (3 / 10 * of_int n) = (3 * n + 5) div 10"
proof -
  have "(3 / 10 * of_int n + 1 / 2 :: rat) = of_int (3 * n + 5) / of_int 10"
    by (simp add: field_simps)
  then show ?thesis
    unfolding Math_round_def by (simp only: floor_divide_of_int_eq)
qed

lemma POST_from_items_returns: "\<exists>resp. POST_from_items lc e net allItems = Some resp"
  by (simp add: POST_from_items_def batchPriceLookup_result split: sum.splits)

lemma ex_sort_high_low:
  "js_sort confidence_cmp [ex_lamp_high\<lparr>search_query := None\<rparr>, ex_lamp_low] =
     [ex_lamp_high\<lparr>search_query := None\<rparr>, ex_lamp_low]"
  by code_simp


lemma ex_missing_query_run:
  "deduplicateItems_default lc [ex_lamp_high\<lparr>search_query := None\<rparr>, ex_lamp_low] =
     Inl undefined_toLowerCase"
  by (simp add: deduplicateItems_default_def deduplicateItems_def ex_sort_high_low)
     (simp add: ex_lamp_high_def ex_lamp_low_def detected_def similarity_js_def
        similarity_def)


lemma ex_report_run:
  "POST_from_items latin1_lower ex_env ex_net_quarter [ex_pin_jewelry, ex_pin_other, ex_cup] =
     Some (Report ex_report)"
  by code_simp


section \<open>The claims about the similarity scorer\<close>

text \<open>
  Claim C9: \<^verbatim>\<open>similarity\<close> is symmetric. For every pair of strings \<open>a\<close>, \<open>b\<close>,
  \<open>similarity(a, b) = similarity(b, a)\<close>, although the bigram counts are built from the
  first argument and consumed while scanning the second: the number of intersections is
  the size of the intersection of the two bigram multisets. This holds for every
  lower-casing function.
\<close>

theorem similarity_symmetric: "similarity toLowerCase a b = similarity toLowerCase b a"
  by (rule similarity_commute)

text \<open>
  Claim C4, as stated: whenever one of the two strings has fewer than 2 characters,
  \<open>similarity(a, b) = 0\<close>. It fails for two equal one-character strings: the test for
  equality comes first and returns 1.
\<close>

theorem similarity_short_counterexample:
  "length ''a'' < 2 \<and> similarity latin1_lower ''a'' ''a'' = 1"
  by (simp add: similarity_def)

text \<open>
  Claim C4, amended: whenever the lower-cased forms of the two strings are different and
  one of the lower-cased forms has fewer than 2 characters, \<open>similarity(a, b) = 0\<close>. The
  lengths are those of the lower-cased strings, as in the source, since lower-casing may
  lengthen a string.
\<close>

theorem similarity_short_distinct:
  "toLowerCase a \<noteq> toLowerCase b \<Longrightarrow>
   length (toLowerCase a) < 2 \<or> length (toLowerCase b) < 2 \<Longrightarrow>
   similarity toLowerCase a b = 0"
  by (auto simp: similarity_def Let_def)

theorem similarity_short_distinct_witness:
  "latin1_lower ''a'' \<noteq> latin1_lower ''Bc'' \<and> length (latin1_lower ''a'') < 2 \<and>
   similarity latin1_lower ''a'' ''Bc'' = 0"
proof -
  have ne: "latin1_lower ''a'' \<noteq> latin1_lower ''Bc''"
    by (simp add: latin1_lower_def)
  have short: "length (latin1_lower ''a'') < 2 \<or> length (latin1_lower ''Bc'') < 2"
    by (simp add: latin1_lower_def)
  show ?thesis
    using ne short similarity_short_distinct [of latin1_lower "''a''" "''Bc''"]
    by (simp add: latin1_lower_def)
qed

section \<open>The claims about the deduplicator\<close>

text \<open>
  Claim C1: in the output of \<^verbatim>\<open>deduplicateItems\<close> with the default thresholds, no two
  distinct surviving items of the same category have a name similarity of at least 0.75
  or a search-phrase similarity of at least 0.70. For two survivors at different
  positions with the same category, both similarities are defined and below their
  thresholds.
\<close>

theorem survivors_not_similar:
  assumes "deduplicateItems_default toLowerCase its = Inr out"
      and "i < length out" and "j < length out" and "i \<noteq> j"
      and "category (out ! i) = category (out ! j)"
  shows "(\<exists>s. similarity_js toLowerCase (name (out ! i)) (name (out ! j)) = Inr s
               \<and> s < 3 / 4) \<and>
         (\<exists>q. similarity_js toLowerCase (search_query (out ! i)) (search_query (out ! j))
                 = Inr q \<and> q < 7 / 10)"
proof -
  have pa: "sorted_wrt (\<lambda>a b. apart toLowerCase (3 / 4) (7 / 10) b a) out"
    using assms(1) deduplicateItems_pairwise_apart
    unfolding deduplicateItems_default_def pairwise_apart_def by blast
  have "apart toLowerCase (3 / 4) (7 / 10) (out ! i) (out ! j)"
  proof (cases "i < j")
    case True
    then have "apart toLowerCase (3 / 4) (7 / 10) (out ! j) (out ! i)"
      using pa assms(3) by (simp add: sorted_wrt_iff_nth_less)
    then show ?thesis by (simp add: apart_commute)
  next
    case False
    then have "j < i" using assms(4) by simp
    then show ?thesis
      using pa assms(2) by (simp add: sorted_wrt_iff_nth_less)
  qed
  then show ?thesis using assms(5) unfolding apart_def by blast
qed

theorem survivors_not_similar_witness:
  "deduplicateItems_default latin1_lower [ex_lamp_low, ex_desk, ex_lamp_high] =
     Inr [ex_lamp_high\<lparr>notable_features := Iterable [''brass'', ''shade'']\<rparr>, ex_desk] \<and>
   (\<exists>s. similarity_js latin1_lower (name ex_lamp_high) (name ex_desk) = Inr s \<and> s < 3 / 4) \<and>
   (\<exists>q. similarity_js latin1_lower (search_query ex_lamp_high) (search_query ex_desk) = Inr q
         \<and> q < 7 / 10)"
proof -
  have run: "deduplicateItems_default latin1_lower [ex_lamp_low, ex_desk, ex_lamp_high] =
     Inr [ex_lamp_high\<lparr>notable_features := Iterable [''brass'', ''shade'']\<rparr>, ex_desk]"
    by code_simp
  have cat: "category ([ex_lamp_high\<lparr>notable_features := Iterable [''brass'', ''shade'']\<rparr>,
                        ex_desk] ! 0) =
             category ([ex_lamp_high\<lparr>notable_features := Iterable [''brass'', ''shade'']\<rparr>,
                        ex_desk] ! 1)"
    by (simp add: ex_lamp_high_def ex_desk_def detected_def)
  show ?thesis
    using run survivors_not_similar [OF run, of 0 1, OF _ _ _ cat] by simp
qed

text \<open>
  Claim C2: of any two items of the same category with identical names and differing
  confidence levels, exactly the higher-confidence item survives, with the union of both
  feature sets. The source fails it on the two lamps below, of which the first has no
  search phrase: after the names, \<^verbatim>\<open>similarity\<close> is called on the search phrases without a
  test and raises, for every lower-casing function, so that no item survives.
\<close>

theorem missing_search_phrase_raises:
  "category (ex_lamp_high\<lparr>search_query := None\<rparr>) = category ex_lamp_low \<and>
   name (ex_lamp_high\<lparr>search_query := None\<rparr>) = name ex_lamp_low \<and>
   confidence (ex_lamp_high\<lparr>search_query := None\<rparr>) = Some ''high'' \<and>
   confidence ex_lamp_low = Some ''low'' \<and>
   deduplicateItems_default toLowerCase
     [ex_lamp_high\<lparr>search_query := None\<rparr>, ex_lamp_low] = Inl undefined_toLowerCase"
  using ex_missing_query_run [of toLowerCase]
  by (simp add: ex_lamp_high_def ex_lamp_low_def detected_def)

text \<open>
  Claim C5: \<^verbatim>\<open>deduplicateItems\<close> is idempotent. The source fails it on the three items
  below: the lamp of low confidence, the same lamp with the confidence \<^verbatim>\<open>constructor\<close>,
  and a desk of high confidence. The rank of \<^verbatim>\<open>constructor\<close> is an inherited function,
  every comparison with it is NaN, and the sort leaves the three items in their order;
  the first call returns the lamp before the desk, and the second call, which can
  compare the two ranks, returns the desk before the lamp.
\<close>

theorem deduplicateItems_twice_differs:
  "deduplicateItems_default latin1_lower [ex_lamp_low, ex_lamp_constructor, ex_desk_high] =
     Inr [ex_lamp_low, ex_desk_high] \<and>
   deduplicateItems_default latin1_lower [ex_lamp_low, ex_desk_high] =
     Inr [ex_desk_high, ex_lamp_low]"
  by code_simp





section \<open>The claims about the price lookup\<close>

text \<open>
  Claim C6: \<^verbatim>\<open>findSoldListings\<close> never raises an error to its caller. For every search
  query, options and outcome of the HTTP request it returns a value; without a
  credential that value is \<^verbatim>\<open>{available: false, reason: 'EBAY_APP_ID not configured'}\<close>,
  and on a network failure, a status outside 200 to 299, a body that cannot be read or
  a marketplace answer other than \<^verbatim>\<open>Success\<close> it is \<^verbatim>\<open>{available: false, reason}\<close> with the
  message of the failure.
\<close>

theorem findSoldListings_never_raises:
  "(\<exists>res. snd (findSoldListings e net q opts) = Inr res) \<and>
   (\<not> truthy_string (EBAY_APP_ID e) \<longrightarrow>
      findSoldListings e net q opts =
        ([], Inr (Unavailable (Some ''EBAY_APP_ID not configured'')))) \<and>
   (truthy_string (EBAY_APP_ID e) \<longrightarrow>
      (\<forall>msg. net (build_params (the (EBAY_APP_ID e)) q opts) = Rejects msg \<longrightarrow>
         snd (findSoldListings e net q opts) = Inr (Unavailable (Some msg))) \<and>
      (\<forall>status body.
         net (build_params (the (EBAY_APP_ID e)) q opts) = Resolves status body \<and>
         \<not> (200 \<le> status \<and> status \<le> 299) \<longrightarrow>
         snd (findSoldListings e net q opts) =
           Inr (Unavailable (Some (''eBay API error: '' @ string_of_nat status)))) \<and>
      (\<forall>status msg.
         net (build_params (the (EBAY_APP_ID e)) q opts) = Resolves status (BodyRaises msg) \<and>
         200 \<le> status \<and> status \<le> 299 \<longrightarrow>
         snd (findSoldListings e net q opts) = Inr (Unavailable (Some msg))) \<and>
      (\<forall>status res.
         net (build_params (the (EBAY_APP_ID e)) q opts) = Resolves status (Parsed res) \<and>
         200 \<le> status \<and> status \<le> 299 \<and>
         (case res of None \<Rightarrow> None | Some r \<Rightarrow> ack r) \<noteq> Some ''Success'' \<longrightarrow>
         (\<exists>reason. snd (findSoldListings e net q opts) = Inr (Unavailable (Some reason))) \<and>
         (\<forall>r m. res = Some r \<and> error_message r = Some m \<and> m \<noteq> [] \<longrightarrow>
            snd (findSoldListings e net q opts) = Inr (Unavailable (Some m)))))"
proof (intro conjI impI allI)
  show "\<exists>res. snd (findSoldListings e net q opts) = Inr res"
    by (rule findSoldListings_returns)
next
  assume "\<not> truthy_string (EBAY_APP_ID e)"
  then show "findSoldListings e net q opts =
        ([], Inr (Unavailable (Some ''EBAY_APP_ID not configured'')))"
    by (simp add: findSoldListings_def)
next
  fix msg
  assume "truthy_string (EBAY_APP_ID e)"
     and "net (build_params (the (EBAY_APP_ID e)) q opts) = Rejects msg"
  then show "snd (findSoldListings e net q opts) = Inr (Unavailable (Some msg))"
    by (simp add: findSoldListings_snd read_response_def)
next
  fix status body
  assume "truthy_string (EBAY_APP_ID e)"
     and "net (build_params (the (EBAY_APP_ID e)) q opts) = Resolves status body \<and>
          \<not> (200 \<le> status \<and> status \<le> 299)"
  then show "snd (findSoldListings e net q opts) =
           Inr (Unavailable (Some (''eBay API error: '' @ string_of_nat status)))"
    by (auto simp: findSoldListings_snd read_response_def)
next
  fix status msg
  assume "truthy_string (EBAY_APP_ID e)"
     and "net (build_params (the (EBAY_APP_ID e)) q opts) = Resolves status (BodyRaises msg) \<and>
          200 \<le> status \<and> status \<le> 299"
  then show "snd (findSoldListings e net q opts) = Inr (Unavailable (Some msg))"
    by (simp add: findSoldListings_snd read_response_def)
next
  fix status res
  assume "truthy_string (EBAY_APP_ID e)"
     and "net (build_params (the (EBAY_APP_ID e)) q opts) = Resolves status (Parsed res) \<and>
          200 \<le> status \<and> status \<le> 299 \<and>
          (case res of None \<Rightarrow> None | Some r \<Rightarrow> ack r) \<noteq> Some ''Success''"
  then show "\<exists>reason. snd (findSoldListings e net q opts) = Inr (Unavailable (Some reason))"
    by (simp add: findSoldListings_snd read_response_def Let_def)
next
  fix status res r m
  assume "truthy_string (EBAY_APP_ID e)"
     and "net (build_params (the (EBAY_APP_ID e)) q opts) = Resolves status (Parsed res) \<and>
          200 \<le> status \<and> status \<le> 299 \<and>
          (case res of None \<Rightarrow> None | Some r \<Rightarrow> ack r) \<noteq> Some ''Success''"
     and "res = Some r \<and> error_message r = Some m \<and> m \<noteq> []"
  then show "snd (findSoldListings e net q opts) = Inr (Unavailable (Some m))"
    by (simp add: findSoldListings_snd read_response_def Let_def truthy_string_def)
qed

theorem findSoldListings_never_raises_witness:
  "snd (findSoldListings ex_env ex_net_down ''lamp'' ex_options) =
     Inr (Unavailable (Some ''fetch failed'')) \<and>
   snd (findSoldListings ex_env ex_net_503 ''lamp'' ex_options) =
     Inr (Unavailable (Some (''eBay API error: '' @ string_of_nat 503))) \<and>
   snd (findSoldListings ex_env ex_net_garbled ''lamp'' ex_options) =
     Inr (Unavailable (Some ''Unexpected token < in JSON'')) \<and>
   snd (findSoldListings ex_env ex_net_failure ''lamp'' ex_options) =
     Inr (Unavailable (Some ''Invalid keywords'')) \<and>
   findSoldListings \<lparr>EBAY_APP_ID = None\<rparr> ex_net_down ''lamp'' ex_options =
     ([], Inr (Unavailable (Some ''EBAY_APP_ID not configured'')))"
proof -
  have key: "truthy_string (EBAY_APP_ID ex_env)"
    by (simp add: ex_env_def truthy_string_def)
  have nokey: "\<not> truthy_string (EBAY_APP_ID \<lparr>EBAY_APP_ID = None\<rparr>)"
    by (simp add: truthy_string_def)
  have down: "snd (findSoldListings ex_env ex_net_down ''lamp'' ex_options) =
     Inr (Unavailable (Some ''fetch failed''))"
    using key findSoldListings_never_raises [of ex_env ex_net_down "''lamp''" ex_options]
    by (simp add: ex_net_down_def)
  have status: "snd (findSoldListings ex_env ex_net_503 ''lamp'' ex_options) =
     Inr (Unavailable (Some (''eBay API error: '' @ string_of_nat 503)))"
    using key findSoldListings_never_raises [of ex_env ex_net_503 "''lamp''" ex_options]
    by (simp add: ex_net_503_def)
  have garbled: "snd (findSoldListings ex_env ex_net_garbled ''lamp'' ex_options) =
     Inr (Unavailable (Some ''Unexpected token < in JSON''))"
    using key findSoldListings_never_raises [of ex_env ex_net_garbled "''lamp''" ex_options]
    by (simp add: ex_net_garbled_def)
  have failure: "snd (findSoldListings ex_env ex_net_failure ''lamp'' ex_options) =
     Inr (Unavailable (Some ''Invalid keywords''))"
    using key findSoldListings_never_raises [of ex_env ex_net_failure "''lamp''" ex_options]
    by (simp add: ex_net_failure_def)
  have unconfigured:
    "findSoldListings \<lparr>EBAY_APP_ID = None\<rparr> ex_net_down ''lamp'' ex_options =
       ([], Inr (Unavailable (Some ''EBAY_APP_ID not configured'')))"
    using nokey
      findSoldListings_never_raises [of "\<lparr>EBAY_APP_ID = None\<rparr>" ex_net_down "''lamp''" ex_options]
    by simp
  show ?thesis using down status garbled failure unconfigured by simp
qed


section \<open>The claims about the batch price enricher\<close>

text \<open>
  Claim C7, as stated: for an item whose value hint holds dollar amounts, with low bound
  \<open>L\<close> and high bound \<open>H\<close>, \<^verbatim>\<open>batchPriceLookup\<close> invokes the price lookup with a minimum
  price of 30% of \<open>L\<close> and a maximum price of 3 times \<open>H\<close>. It fails for the hint
  \<^verbatim>\<open>$5\<close>: 30% of 5 is one and a half, and the request that \<^verbatim>\<open>batchPriceLookup\<close> sends is
  the one for the minimum price 2 and the maximum price 15. It also fails for the hint
  \<^verbatim>\<open>$3333333333333335\<close>, where the product with 3 is not a double and is rounded.
\<close>

theorem price_range_counterexample:
  "estimated_value_hint ex_desk = Some ''$5'' \<and>
   dollar_matches ''$5'' = [''5''] \<and> decimal_value ''5'' = 5 \<and>
   batchPriceLookup ex_env ex_net_down [ex_desk] 3 =
     Some ([\<lparr>itemName = Some ''Oak desk'',
             ebay_result = Unavailable (Some ''fetch failed'')\<rparr>],
           [build_params ''app'' ''oak writing desk''
              \<lparr>maxResults = None, categoryId = None, minPrice = Some (Amount 2),
               maxPrice = Some (Amount 15)\<rparr>]) \<and>
   (of_int 2 :: rat) \<noteq> 3 / 10 * of_int 5 \<and>
   decimal_value ''3333333333333335'' = 3333333333333335 \<and>
   snd (price_range (ex_desk\<lparr>estimated_value_hint := Some ''$3333333333333335''\<rparr>)) =
     Some (Amount 10000000000000004) \<and>
   (10000000000000004 :: int) \<noteq> 3 * 3333333333333335"
  by code_simp

text \<open>
  Claim C7, amended: for an item with a search phrase whose value hint holds dollar
  amounts, with low bound \<open>L\<close> (the first match) below \<open>2^50\<close> and high bound \<open>H\<close> (the
  second match, or \<open>L\<close> if there is only one) with \<open>3 * H\<close> below \<open>2^53\<close>,
  \<^verbatim>\<open>batchPriceLookup\<close> invokes the price lookup for the item's search phrase with a minimum
  price of 30% of \<open>L\<close> rounded to the nearest integer (a half rounding up) and raised to
  at least 1, and a maximum price of 3 times \<open>H\<close>: the call returns, the entry of the
  item carries the item's name and the result of that lookup, and the requests of that
  lookup are among the requests sent. (Beyond the bounds the amounts and the products
  are rounded to doubles.)
\<close>

theorem price_range_widened:
  assumes "0 < concurrency" and "i < length its"
      and "search_query (its ! i) = Some q" and "q \<noteq> []"
      and "estimated_value_hint (its ! i) = Some h"
      and "dollar_matches h = m0 # ms"
      and "L = decimal_value m0"
      and "H = decimal_value (case ms of [] \<Rightarrow> m0 | m1 # _ \<Rightarrow> m1)"
      and "L < 2 ^ 50" and "3 * H < 2 ^ 53"
      and "opts = \<lparr>maxResults = None, categoryId = None,
                    minPrice = Some (Amount (max 1 (Math_round (3 / 10 * of_int L)))),
                    maxPrice = Some (Amount (3 * H))\<rparr>"
  shows "\<exists>results requests res.
           batchPriceLookup e net its concurrency = Some (results, requests) \<and>
           snd (findSoldListings e net q opts) = Inr res \<and>
           results ! i = \<lparr>itemName = name (its ! i), ebay_result = res\<rparr> \<and>
           set (fst (findSoldListings e net q opts)) \<subseteq> set requests"
proof -
  define m1 where "m1 = (case ms of [] \<Rightarrow> m0 | m # _ \<Rightarrow> m)"
  have m0: "m0 \<in> set (dollar_matches h)" using assms(6) by simp
  have m1: "m1 \<in> set (dollar_matches h)"
    using assms(6) by (cases ms) (simp_all add: m1_def)
  have L0: "0 \<le> L"
    unfolding assms(7) using dollar_matches_digits [OF m0]
    by (intro decimal_value_nonneg) blast
  have H0: "0 \<le> H"
    unfolding assms(8) m1_def [symmetric] using dollar_matches_digits [OF m1]
    by (intro decimal_value_nonneg) blast
  have "L < 2 ^ 53"
    using assms(9) power_strict_increasing [of 50 53 "2::int"] by simp
  then have low: "parseInt_digits m0 = Amount L"
    unfolding assms(7) by (rule parseInt_digits_exact)
  have "H < 2 ^ 53" using assms(10) H0 by simp
  then have high: "parseInt_digits m1 = Amount H"
    unfolding assms(8) m1_def [symmetric] by (rule parseInt_digits_exact)
  have wl: "widen_low (Amount L) = Amount (max 1 (Math_round (3 / 10 * of_int L)))"
    using L0 assms(9) by (simp only: widen_low_exact Math_round_three_tenths)
  have wh: "widen_high (Amount H) = Amount (3 * H)"
    using assms(10) by (rule widen_high_exact)
  have "h \<noteq> []" using assms(6) by auto
  then have range: "price_range (its ! i) = (minPrice opts, maxPrice opts)"
    using assms(5,6,11) low high wl wh
    by (simp add: price_range_def truthy_string_def Let_def m1_def)
  have "truthy_string (search_query (its ! i))"
    using assms(3,4) by (simp add: truthy_string_def)
  then have task: "lookup_task e net (its ! i) =
      (fst (findSoldListings e net q opts),
       (case snd (findSoldListings e net q opts) of
          Inl err \<Rightarrow> Inl err
        | Inr res \<Rightarrow> Inr \<lparr>itemName = name (its ! i), ebay_result = res\<rparr>))"
    using range assms(3,11) by (simp add: lookup_task_def Let_def split: prod.splits)
  obtain res where res: "snd (findSoldListings e net q opts) = Inr res"
    using findSoldListings_returns by blast
  have entry: "map (settled_entry \<circ> snd \<circ> lookup_task e net) its ! i =
      \<lparr>itemName = name (its ! i), ebay_result = res\<rparr>"
    using assms(2) task res by (simp add: settled_entry_def)
  have "its ! i \<in> set its" using assms(2) by simp
  then have sent: "set (fst (findSoldListings e net q opts)) \<subseteq>
      set (concat (map (fst \<circ> lookup_task e net) its))"
    using task by force
  show ?thesis
    using assms(1) res entry sent by (simp add: batchPriceLookup_result)
qed

theorem price_range_widened_witness:
  "dollar_matches ''$40-$60'' = [''40'', ''60''] \<and>
   (\<exists>results requests res.
      batchPriceLookup ex_env ex_net_down [ex_desk, ex_lamp_high] 3 =
        Some (results, requests) \<and>
      snd (findSoldListings ex_env ex_net_down ''brass lamp''
             \<lparr>maxResults = None, categoryId = None, minPrice = Some (Amount 12),
              maxPrice = Some (Amount 180)\<rparr>) = Inr res \<and>
      results ! 1 = \<lparr>itemName = Some ''Brass lamp'', ebay_result = res\<rparr> \<and>
      set (fst (findSoldListings ex_env ex_net_down ''brass lamp''
                  \<lparr>maxResults = None, categoryId = None, minPrice = Some (Amount 12),
                   maxPrice = Some (Amount 180)\<rparr>)) \<subseteq> set requests)"
proof -
  have q: "search_query ([ex_desk, ex_lamp_high] ! 1) = Some ''brass lamp''"
    by (simp add: ex_lamp_high_def detected_def)
  have h: "estimated_value_hint ([ex_desk, ex_lamp_high] ! 1) = Some ''$40-$60''"
    by (simp add: ex_lamp_high_def detected_def)
  have n: "name ([ex_desk, ex_lamp_high] ! 1) = Some ''Brass lamp''"
    by (simp add: ex_lamp_high_def detected_def)
  have ms: "dollar_matches ''$40-$60'' = [''40'', ''60'']"
    by code_simp
  have lo: "40 = decimal_value ''40''"
    by code_simp
  have hi: "60 = decimal_value (case [''60''] of [] \<Rightarrow> ''40'' | m1 # _ \<Rightarrow> m1)"
    by code_simp
  have ne: "''brass lamp'' \<noteq> []"
    by simp
  have opts: "\<lparr>maxResults = None, categoryId = None, minPrice = Some (Amount 12),
               maxPrice = Some (Amount 180)\<rparr> =
              \<lparr>maxResults = None, categoryId = None,
               minPrice = Some (Amount (max 1 (Math_round (3 / 10 * of_int 40)))),
               maxPrice = Some (Amount (3 * 60))\<rparr>"
    unfolding Math_round_three_tenths by simp
  have "\<exists>results requests res.
      batchPriceLookup ex_env ex_net_down [ex_desk, ex_lamp_high] 3 =
        Some (results, requests) \<and>
      snd (findSoldListings ex_env ex_net_down ''brass lamp''
             \<lparr>maxResults = None, categoryId = None, minPrice = Some (Amount 12),
              maxPrice = Some (Amount 180)\<rparr>) = Inr res \<and>
      results ! 1 = \<lparr>itemName = name ([ex_desk, ex_lamp_high] ! 1), ebay_result = res\<rparr> \<and>
      set (fst (findSoldListings ex_env ex_net_down ''brass lamp''
                  \<lparr>maxResults = None, categoryId = None, minPrice = Some (Amount 12),
                   maxPrice = Some (Amount 180)\<rparr>)) \<subseteq> set requests"
    by (rule price_range_widened [OF _ _ q ne h ms lo hi _ _ opts]) simp_all
  then show ?thesis unfolding n using ms by blast
qed

text \<open>
  Claim C8: for every item with no search phrase (\<^verbatim>\<open>search_query\<close> absent or empty),
  \<^verbatim>\<open>batchPriceLookup\<close> produces for that item the result
  \<^verbatim>\<open>{available: false, reason: 'No search query'}\<close> without invoking the marketplace
  lookup: the call returns one entry per item, the entry of that item is this result,
  and the requests sent are those of the same call without the item.
\<close>

theorem no_search_query_short_circuit:
  assumes "0 < concurrency" and "i < length its"
      and "search_query (its ! i) = None \<or> search_query (its ! i) = Some []"
  shows "\<exists>results requests results'.
           batchPriceLookup e net its concurrency = Some (results, requests) \<and>
           length results = length its \<and>
           results ! i = \<lparr>itemName = name (its ! i),
                          ebay_result = Unavailable (Some ''No search query'')\<rparr> \<and>
           batchPriceLookup e net (take i its @ drop (Suc i) its) concurrency =
             Some (results', requests)"
proof -
  have none: "\<not> truthy_string (search_query (its ! i))"
    using assms(3) by (auto simp: truthy_string_def)
  have task: "lookup_task e net (its ! i) =
     ([], Inr \<lparr>itemName = name (its ! i),
               ebay_result = Unavailable (Some ''No search query'')\<rparr>)"
    using none by (rule lookup_task_no_query)
  have "(fst \<circ> lookup_task e net) (its ! i) = []"
    using task by simp
  then have "concat (map (fst \<circ> lookup_task e net) (take i its @ drop (Suc i) its)) =
             concat (map (fst \<circ> lookup_task e net) its)"
    using assms(2) by (intro concat_map_without)
  moreover have "map (settled_entry \<circ> snd \<circ> lookup_task e net) its ! i =
      \<lparr>itemName = name (its ! i), ebay_result = Unavailable (Some ''No search query'')\<rparr>"
    using assms(2) task by (simp add: settled_entry_def)
  ultimately show ?thesis
    using assms(1) by (simp add: batchPriceLookup_result)
qed

theorem no_search_query_short_circuit_witness:
  "search_query ([ex_pin_jewelry, ex_pin_other, ex_cup] ! 2) = None \<and>
   (\<exists>results requests results'.
      batchPriceLookup ex_env ex_net_quarter [ex_pin_jewelry, ex_pin_other, ex_cup] 3 =
        Some (results, requests) \<and>
      length results = 3 \<and>
      results ! 2 = \<lparr>itemName = Some ''cup'',
                     ebay_result = Unavailable (Some ''No search query'')\<rparr> \<and>
      batchPriceLookup ex_env ex_net_quarter [ex_pin_jewelry, ex_pin_other] 3 =
        Some (results', requests))"
proof -
  have q: "search_query ([ex_pin_jewelry, ex_pin_other, ex_cup] ! 2) = None"
    by (simp add: ex_cup_def)
  have n: "name ([ex_pin_jewelry, ex_pin_other, ex_cup] ! 2) = Some ''cup''"
    by (simp add: ex_cup_def)
  show ?thesis
    using q n no_search_query_short_circuit
                [of 3 2 "[ex_pin_jewelry, ex_pin_other, ex_cup]" ex_env ex_net_quarter]
    by (simp add: numeral_3_eq_3)
qed

section \<open>The claim about the order of the report\<close>

text \<open>
  Claim C3: the item list of the report is sorted in descending order by the median of
  the attached comp data when comp data is present, and else by the first dollar amount
  of the value hint. The source fails it in the report below: the first item has comp
  data attached, with the median 0, and stands before an item without comp data whose
  hint holds the amount 10. The operator \<^verbatim>\<open>||\<close> of the key takes an attached median of 0
  for a missing one, and the item is ordered by the amount 50 of its hint.
\<close>

theorem report_order_zero_median:
  "POST_from_items latin1_lower ex_env ex_net_quarter [ex_pin_jewelry, ex_pin_other, ex_cup] =
     Some (Report ex_report) \<and>
   report_items ex_report ! 0 = ex_pin_other\<lparr>ebay := Some ex_comp\<rparr> \<and>
   comp_median ex_comp = 0 \<and>
   parseEstimate (estimated_value_hint ex_pin_other) = Amount 50 \<and>
   report_items ex_report ! 1 = ex_cup \<and>
   ebay ex_cup = None \<and>
   parseEstimate (estimated_value_hint ex_cup) = Amount 10"
proof -
  have rest: "report_items ex_report ! 0 = ex_pin_other\<lparr>ebay := Some ex_comp\<rparr> \<and>
      comp_median ex_comp = 0 \<and>
      parseEstimate (estimated_value_hint ex_pin_other) = Amount 50 \<and>
      report_items ex_report ! 1 = ex_cup \<and>
      ebay ex_cup = None \<and>
      parseEstimate (estimated_value_hint ex_cup) = Amount 10"
    by code_simp
  show ?thesis using ex_report_run rest by simp
qed


end
